theory Spec2Isabelle
  imports Complex_Main
begin

section \<open>JavaScript values used by the route server\<close>

text \<open>
  Node identifiers arrive from JSON and are used untyped: a node's \<open>id\<close> and an edge's
  \<open>node\<close> may be a number or a string, and \<open>findNearestNode\<close> starts from \<open>null\<close>.
  Numeric identifiers are modelled as integers. \<open>truthy\<close> is JavaScript's boolean
  coercion (\<open>if (x)\<close>, \<open>!x\<close>, \<open>x && y\<close>) and \<open>jsString\<close> is \<open>String(x)\<close>,
  which is also the property key used by \<open>obj[x]\<close>.

  The maps of the searches are plain objects \<open>{}\<close>, which inherit the properties of
  \<open>Object.prototype\<close>; \<open>proto_names\<close> lists their names. \<open>JProto k\<close> is the value that
  \<open>Object.prototype\<close> holds at \<open>k\<close>: a built-in function (the function \<open>Object\<close> at
  \<open>constructor\<close>), or the prototype object itself at \<open>__proto__\<close>. It is never an
  identifier of the data, but it is what a read of an inherited property yields; it is
  truthy, and its \<open>String\<close> is the source text of the function.
\<close>

datatype jsid = JNull | JUndefined | JNum int | JStr string | JProto string

fun truthy :: "jsid \<Rightarrow> bool" where
  "truthy JNull = False"
| "truthy JUndefined = False"
| "truthy (JNum n) = (n \<noteq> 0)"
| "truthy (JStr s) = (s \<noteq> [])"
| "truthy (JProto k) = True"

fun show_nat :: "nat \<Rightarrow> string" where
  "show_nat n =
     (if n < 10 then [''0123456789'' ! n]
      else show_nat (n div 10) @ [''0123456789'' ! (n mod 10)])"

definition show_int :: "int \<Rightarrow> string" where
  "show_int i = (if i < 0 then CHR ''-'' # show_nat (nat (- i)) else show_nat (nat i))"

fun jsString :: "jsid \<Rightarrow> string" where
  "jsString JNull = ''null''"
| "jsString JUndefined = ''undefined''"
| "jsString (JNum n) = show_int n"
| "jsString (JStr s) = s"
| "jsString (JProto k) =
     (if k = ''__proto__'' then ''[object Object]''
      else ''function '' @ (if k = ''constructor'' then ''Object'' else k)
             @ ''() { [native code] }'')"

definition proto_names :: "string list" where
  "proto_names =
     [''constructor'', ''__defineGetter__'', ''__defineSetter__'', ''hasOwnProperty'',
      ''__lookupGetter__'', ''__lookupSetter__'', ''isPrototypeOf'', ''propertyIsEnumerable'',
      ''toString'', ''valueOf'', ''__proto__'', ''toLocaleString'']"

text \<open>
  A read \<open>obj[k]\<close> of a plain object whose own properties are the map \<open>obj\<close>: the own
  value, else the inherited one, else \<open>undefined\<close>.
\<close>

datatype 'v slot = Undefined | Own 'v | Inherited string

definition js_get :: "(string \<rightharpoonup> 'v) \<Rightarrow> string \<Rightarrow> 'v slot" where
  "js_get obj k =
     (case obj k of Some v \<Rightarrow> Own v
      | None \<Rightarrow> if k \<in> set proto_names then Inherited k else Undefined)"

text \<open>
  What a call comes to: it returns a value, it throws (the \<open>TypeError\<close> of iterating or
  dereferencing a value that does not allow it; nothing in the server catches it), it
  does not come back from a loop, or it leaves what is modelled here.
\<close>

datatype 'a outcome = Returns 'a | Throws | Hangs | Unmodelled

fun and_then :: "'a outcome \<Rightarrow> ('a \<Rightarrow> 'b outcome) \<Rightarrow> 'b outcome" where
  "and_then (Returns x) f = f x"
| "and_then Throws f = Throws"
| "and_then Hangs f = Hangs"
| "and_then Unmodelled f = Unmodelled"

definition map_outcome :: "('a \<Rightarrow> 'b) \<Rightarrow> 'a outcome \<Rightarrow> 'b outcome" where
  "map_outcome f x = and_then x (\<lambda>v. Returns (f v))"

text \<open>
  Numbers that take part in distance arithmetic: a finite value (weights and coordinates
  are taken as exact reals) or JavaScript's \<open>Infinity\<close>. Only \<open>+\<close>, \<open><\<close>, \<open>\<le>\<close> are used
  on them by the code.
\<close>

datatype jsnum = Fin real | Infinity

instantiation jsnum :: linorder
begin

fun less_eq_jsnum :: "jsnum \<Rightarrow> jsnum \<Rightarrow> bool" where
  "less_eq_jsnum (Fin a) (Fin b) = (a \<le> b)"
| "less_eq_jsnum Infinity (Fin b) = False"
| "less_eq_jsnum x Infinity = True"

fun less_jsnum :: "jsnum \<Rightarrow> jsnum \<Rightarrow> bool" where
  "less_jsnum (Fin a) (Fin b) = (a < b)"
| "less_jsnum (Fin a) Infinity = True"
| "less_jsnum Infinity y = False"

instance
proof
  fix x y z :: jsnum
  show "(x < y) = (x \<le> y \<and> \<not> y \<le> x)"
    by (cases x; cases y) auto
  show "x \<le> x"
    by (cases x) auto
  show "x \<le> y \<Longrightarrow> y \<le> z \<Longrightarrow> x \<le> z"
    by (cases x; cases y; cases z) auto
  show "x \<le> y \<Longrightarrow> y \<le> x \<Longrightarrow> x = y"
    by (cases x; cases y) auto
  show "x \<le> y \<or> y \<le> x"
    by (cases x; cases y) auto
qed

end

instantiation jsnum :: plus
begin

fun plus_jsnum :: "jsnum \<Rightarrow> jsnum \<Rightarrow> jsnum" where
  "plus_jsnum (Fin a) (Fin b) = Fin (a + b)"
| "plus_jsnum Infinity y = Infinity"
| "plus_jsnum (Fin a) Infinity = Infinity"

instance ..

end

section \<open>Graph data\<close>

record point =
  lat :: real
  lng :: real

record graph_node = point +
  node_id :: jsid

text \<open>
  An edge object \<open>{node, weight}\<close> is the pair (destination, weight). The edge file is a
  JSON object from source id to an array of edges; it is kept as the list of its entries in
  \<open>for ... in\<close> order, and \<open>graph[k]\<close> is a read of this plain object at the key
  \<open>String(k)\<close>.
\<close>

type_synonym edge = "jsid \<times> real"
type_synonym graph = "(string \<times> edge list) list"

definition graph_at :: "graph \<Rightarrow> jsid \<Rightarrow> edge list slot" where
  "graph_at g k = js_get (map_of g) (jsString k)"

subsection \<open>loadGraphData: the routable node filter\<close>

fun add_destinations :: "edge list \<Rightarrow> string set \<Rightarrow> string set" where
  "add_destinations [] ids = ids"
| "add_destinations (e # es) ids = add_destinations es (insert (jsString (fst e)) ids)"

fun routableNodeIds :: "graph \<Rightarrow> string set \<Rightarrow> string set" where
  "routableNodeIds [] ids = ids"
| "routableNodeIds ((startNode, edges) # rest) ids =
     routableNodeIds rest (add_destinations edges (insert startNode ids))"

definition loadGraphData :: "graph_node list \<Rightarrow> graph \<Rightarrow> graph_node list" where
  "loadGraphData allNodes graphEdges =
     filter (\<lambda>n. jsString (node_id n) \<in> routableNodeIds graphEdges {}) allNodes"

section \<open>Nearest node\<close>

definition atan2 :: "real \<Rightarrow> real \<Rightarrow> real" where
  "atan2 y x =
     (if 0 < x then arctan (y / x)
      else if x < 0 then (if 0 \<le> y then arctan (y / x) + pi else arctan (y / x) - pi)
      else if 0 < y then pi / 2
      else if y < 0 then - pi / 2
      else 0)"

definition haversine :: "real \<Rightarrow> real \<Rightarrow> real \<Rightarrow> real \<Rightarrow> real" where
  "haversine lat1 lng1 lat2 lng2 =
     (let R = 6371;
          dLat = (lat2 - lat1) * pi / 180;
          dLng = (lng2 - lng1) * pi / 180;
          a = sin (dLat / 2) * sin (dLat / 2) +
              cos (lat1 * pi / 180) * cos (lat2 * pi / 180) *
              sin (dLng / 2) * sin (dLng / 2);
          c = 2 * atan2 (sqrt a) (sqrt (1 - a))
      in R * c)"

text \<open>
  The scan of \<open>findNearestNode\<close>: the pair is (\<open>minDist\<close>, \<open>nearest\<close>). \<open>excluded\<close> is the
  condition of the \<open>continue\<close>.
\<close>

definition excluded :: "jsid \<Rightarrow> graph_node \<Rightarrow> bool" where
  "excluded excludeNodeId n =
     (truthy excludeNodeId \<and> jsString (node_id n) = jsString excludeNodeId)"

fun nearest_scan ::
  "real \<Rightarrow> real \<Rightarrow> jsid \<Rightarrow> graph_node list \<Rightarrow> jsnum \<times> jsid \<Rightarrow> jsnum \<times> jsid" where
  "nearest_scan la lo ex [] acc = acc"
| "nearest_scan la lo ex (n # ns) (minDist, nearest) =
     (if excluded ex n then nearest_scan la lo ex ns (minDist, nearest)
      else
        (let dist = Fin (haversine (lat n) (lng n) la lo)
         in if dist < minDist then nearest_scan la lo ex ns (dist, node_id n)
            else nearest_scan la lo ex ns (minDist, nearest)))"

text \<open>The default parameter \<open>excludeNodeId = null\<close> replaces an undefined argument.\<close>

definition findNearestNode :: "real \<Rightarrow> real \<Rightarrow> graph_node list \<Rightarrow> jsid \<Rightarrow> jsid" where
  "findNearestNode la lo nodes excludeNodeId =
     snd (nearest_scan la lo (if excludeNodeId = JUndefined then JNull else excludeNodeId)
            nodes (Infinity, JNull))"

text \<open>The first two server variants scan without an exclusion argument.\<close>

fun nearest_scan_plain ::
  "real \<Rightarrow> real \<Rightarrow> graph_node list \<Rightarrow> jsnum \<times> jsid \<Rightarrow> jsnum \<times> jsid" where
  "nearest_scan_plain la lo [] acc = acc"
| "nearest_scan_plain la lo (n # ns) (minDist, nearest) =
     (let dist = Fin (haversine (lat n) (lng n) la lo)
      in if dist < minDist then nearest_scan_plain la lo ns (dist, node_id n)
         else nearest_scan_plain la lo ns (minDist, nearest))"

definition findNearestNode_plain :: "real \<Rightarrow> real \<Rightarrow> graph_node list \<Rightarrow> jsid" where
  "findNearestNode_plain la lo nodes = snd (nearest_scan_plain la lo nodes (Infinity, JNull))"

section \<open>Search state\<close>

text \<open>
  One direction of a search: the objects \<open>distances\<close> and \<open>prev\<close> (the maps are their own
  properties; a read goes through \<open>js_get\<close>), the Set \<open>visited\<close> in insertion order
  (membership compares values, so the number 5 and the string "5" differ) and the array
  \<open>queue\<close> of entries \<open>{node, dist}\<close>. \<open>dijkstra\<close> has one side;
  \<open>bidirectionalDijkstra\<close> has \<open>distancesForward\<close>, \<open>prevForward\<close>, \<open>visitedForward\<close>,
  \<open>queueForward\<close> and the same four for the backward direction. \<open>pops\<close> is not in the
  code: it counts the entries shifted from the queue.
\<close>

type_synonym entry = "jsid \<times> jsnum"

record side =
  distances :: "string \<rightharpoonup> jsnum"
  prev :: "string \<rightharpoonup> jsid"
  visited :: "jsid list"
  queue :: "entry list"
  pops :: nat

definition prev_at :: "(string \<rightharpoonup> jsid) \<Rightarrow> jsid \<Rightarrow> jsid" where
  "prev_at p u =
     (case js_get p (jsString u) of Undefined \<Rightarrow> JUndefined | Own v \<Rightarrow> v
      | Inherited k \<Rightarrow> JProto k)"

text \<open>
  The key \<open>__proto__\<close> is an accessor of \<open>Object.prototype\<close>: an assignment
  \<open>obj['__proto__'] = v\<close> stores no property (it is ignored for a number or a string and
  replaces the prototype of \<open>obj\<close> for \<open>null\<close>). Every other assignment \<open>obj[k] = v\<close>
  stores an own property, as the map update does. The searches are modelled for graphs and
  endpoints that do not use the id \<open>__proto__\<close>; \<open>proto_key\<close> is the test, and on the
  other inputs the model of a search is \<open>Unmodelled\<close>.
\<close>

definition proto_key :: "graph \<Rightarrow> jsid list \<Rightarrow> bool" where
  "proto_key g ids =
     (''__proto__'' \<in> set (map fst g @ map (\<lambda>e. jsString (fst e)) (concat (map snd g))
                              @ map jsString ids))"

text \<open>
  The two initialisation loops: every key of the graph, then every edge destination that
  still reads \<open>undefined\<close>, gets distance \<open>Infinity\<close> and predecessor \<open>null\<close>. A
  destination that has the name of an inherited property and is no key of the graph does
  not read \<open>undefined\<close> and is left out. The bidirectional search fills its forward and
  backward maps in the same two loops with the same values (the test is on
  \<open>distancesForward\<close>, which has the keys of \<open>distancesBackward\<close>), so both sides start as
  \<open>init_side\<close>. A graph is traversed in the order of its list, the order of \<open>for ... in\<close>.
\<close>

definition unreached :: "string \<Rightarrow> side \<Rightarrow> side" where
  "unreached k s = s\<lparr>distances := (distances s)(k \<mapsto> Infinity), prev := (prev s)(k \<mapsto> JNull)\<rparr>"

fun init_sources :: "graph \<Rightarrow> side \<Rightarrow> side" where
  "init_sources [] s = s"
| "init_sources ((node, edges) # rest) s = init_sources rest (unreached node s)"

fun init_edges :: "edge list \<Rightarrow> side \<Rightarrow> side" where
  "init_edges [] s = s"
| "init_edges ((node, weight) # rest) s =
     init_edges rest
       (if js_get (distances s) (jsString node) = Undefined
        then unreached (jsString node) s else s)"

fun init_destinations :: "graph \<Rightarrow> side \<Rightarrow> side" where
  "init_destinations [] s = s"
| "init_destinations ((node, edges) # rest) s = init_destinations rest (init_edges edges s)"

definition empty_side :: side where
  "empty_side = \<lparr>distances = Map.empty, prev = Map.empty, visited = [], queue = [], pops = 0\<rparr>"

definition init_side :: "graph \<Rightarrow> side" where
  "init_side g = init_destinations g (init_sources g empty_side)"

definition source_side :: "jsid \<Rightarrow> side \<Rightarrow> side" where
  "source_side start s =
     s\<lparr>distances := (distances s)(jsString start \<mapsto> Fin 0), queue := queue s @ [(start, Fin 0)]\<rparr>"

text \<open>
  The body of the neighbour loop. \<open>alt\<close> is \<open>distances[current] + weight\<close>. When the
  distance of \<open>current\<close> is a number, \<open>alt < distances[neighbor]\<close> is decided among
  numbers, and is false against an inherited function. When it is \<open>undefined\<close>, \<open>alt\<close> is
  not a number and the comparison is false. When it is an inherited value, \<open>alt\<close> is a
  string: the comparison is false against a number, and against another inherited value
  it compares two strings and could store one as a distance, which is not modelled.
  The forward direction runs the body over \<open>graph[current] || []\<close>; the backward direction
  scans every edge of every source node and runs it, with the source node as neighbour,
  where \<open>String(edge.node) === String(current)\<close>.
\<close>

definition relax_edge :: "jsid \<Rightarrow> jsid \<Rightarrow> real \<Rightarrow> side \<Rightarrow> side outcome" where
  "relax_edge current neighbor weight s =
     (let s1 = (if js_get (distances s) (jsString neighbor) = Undefined
                then s\<lparr>distances := (distances s)(jsString neighbor \<mapsto> Infinity)\<rparr> else s)
      in case js_get (distances s) (jsString current) of
           Own dc \<Rightarrow>
             (case js_get (distances s1) (jsString neighbor) of
                Own dn \<Rightarrow>
                  if dc + Fin weight < dn
                  then Returns (s1\<lparr>distances := (distances s1)(jsString neighbor \<mapsto> dc + Fin weight),
                                   prev := (prev s1)(jsString neighbor \<mapsto> current),
                                   queue := queue s1 @ [(neighbor, dc + Fin weight)]\<rparr>)
                  else Returns s1
              | _ \<Rightarrow> Returns s1)
         | Undefined \<Rightarrow> Returns s1
         | Inherited k \<Rightarrow>
             (case js_get (distances s1) (jsString neighbor) of
                Inherited k' \<Rightarrow> Unmodelled
              | _ \<Rightarrow> Returns s1))"

fun relax_all :: "jsid \<Rightarrow> edge list \<Rightarrow> side \<Rightarrow> side outcome" where
  "relax_all current [] s = Returns s"
| "relax_all current ((neighbor, weight) # rest) s =
     and_then (relax_edge current neighbor weight s) (relax_all current rest)"

fun relax_incoming_edges :: "jsid \<Rightarrow> string \<Rightarrow> edge list \<Rightarrow> side \<Rightarrow> side outcome" where
  "relax_incoming_edges current sourceNode [] s = Returns s"
| "relax_incoming_edges current sourceNode ((node, weight) # rest) s =
     and_then
       (if jsString node = jsString current
        then relax_edge current (JStr sourceNode) weight s else Returns s)
       (relax_incoming_edges current sourceNode rest)"

fun relax_incoming :: "jsid \<Rightarrow> graph \<Rightarrow> side \<Rightarrow> side outcome" where
  "relax_incoming current [] s = Returns s"
| "relax_incoming current ((sourceNode, edges) # rest) s =
     and_then (relax_incoming_edges current sourceNode edges s) (relax_incoming current rest)"

text \<open>
  \<open>const neighbors = graph[current] || []\<close> followed by \<open>for (... of neighbors)\<close>: the
  edges of a key of the graph, none for a key that reads \<open>undefined\<close>, and a \<open>TypeError\<close>
  for an inherited function, which is truthy and not iterable.
\<close>

definition neighbors :: "graph \<Rightarrow> jsid \<Rightarrow> edge list outcome" where
  "neighbors g current =
     (case graph_at g current of Undefined \<Rightarrow> Returns [] | Own es \<Rightarrow> Returns es
      | Inherited k \<Rightarrow> Throws)"

text \<open>
  \<open>queue.sort((a, b) => a.dist - b.dist)\<close> followed by \<open>queue.shift()\<close>: the sort is
  stable, as \<open>sort_key\<close> is. \<open>skipped\<close> is the condition of the \<open>continue\<close>, and \<open>settle\<close>
  is \<open>visited.add(current)\<close>.
\<close>

definition pop :: "side \<Rightarrow> (entry \<times> side) option" where
  "pop s = (case sort_key snd (queue s) of [] \<Rightarrow> None
            | e # rest \<Rightarrow> Some (e, s\<lparr>queue := rest, pops := Suc (pops s)\<rparr>))"

definition settle :: "jsid \<Rightarrow> side \<Rightarrow> side" where
  "settle current s = s\<lparr>visited := visited s @ [current]\<rparr>"

definition skipped :: "jsid \<Rightarrow> side \<Rightarrow> bool" where
  "skipped current s = (\<not> truthy current \<or> current \<in> set (visited s))"

record search_state =
  forward :: side
  backward :: side
  bestDistance :: jsnum
  meetingNode :: jsid

text \<open>
  \<open>minDist\<close> is \<open>queue.length > 0 ? queue[0].dist : Infinity\<close>, read before the queue is
  sorted; \<open>stop_check\<close> is the condition of the \<open>break\<close>; \<open>meet\<close> is the update of
  \<open>bestDistance\<close> and \<open>meetingNode\<close> at a node that the other direction has visited
  (\<open>totalDist\<close> is a number only when both distances are, and the comparison with
  \<open>bestDistance\<close>, a number, is false otherwise). \<open>running\<close> is the loop condition
  together with the negated stop check, and \<open>loop_body\<close> is one iteration beyond the
  check.
\<close>

definition minDist :: "entry list \<Rightarrow> jsnum" where
  "minDist q = (case q of [] \<Rightarrow> Infinity | e # _ \<Rightarrow> snd e)"

definition stop_check :: "search_state \<Rightarrow> bool" where
  "stop_check st =
     (bestDistance st \<le> minDist (queue (forward st)) + minDist (queue (backward st)))"

definition meet :: "jsid \<Rightarrow> search_state \<Rightarrow> search_state" where
  "meet current st =
     (case (js_get (distances (forward st)) (jsString current),
            js_get (distances (backward st)) (jsString current)) of
        (Own df, Own db) \<Rightarrow>
          if df + db < bestDistance st
          then st\<lparr>bestDistance := df + db, meetingNode := current\<rparr> else st
      | _ \<Rightarrow> st)"

definition forward_step :: "graph \<Rightarrow> search_state \<Rightarrow> search_state outcome" where
  "forward_step g st =
     (case pop (forward st) of None \<Rightarrow> Returns st
      | Some ((current, currentDist), f1) \<Rightarrow>
          if skipped current f1 then Returns (st\<lparr>forward := f1\<rparr>)
          else
            (let st1 = st\<lparr>forward := settle current f1\<rparr>;
                 st2 = (if current \<in> set (visited (backward st1)) then meet current st1 else st1)
             in and_then (neighbors g current)
                  (\<lambda>es. map_outcome (\<lambda>f. st2\<lparr>forward := f\<rparr>)
                           (relax_all current es (forward st2)))))"

definition backward_step :: "graph \<Rightarrow> search_state \<Rightarrow> search_state outcome" where
  "backward_step g st =
     (case pop (backward st) of None \<Rightarrow> Returns st
      | Some ((current, currentDist), b1) \<Rightarrow>
          if skipped current b1 then Returns (st\<lparr>backward := b1\<rparr>)
          else
            (let st1 = st\<lparr>backward := settle current b1\<rparr>;
                 st2 = (if current \<in> set (visited (forward st1)) then meet current st1 else st1)
             in map_outcome (\<lambda>b. st2\<lparr>backward := b\<rparr>)
                  (relax_incoming current g (backward st2))))"

definition loop_body :: "graph \<Rightarrow> search_state \<Rightarrow> search_state outcome" where
  "loop_body g st =
     (if queue (forward st) \<noteq> [] \<and> minDist (queue (forward st)) \<le> minDist (queue (backward st))
      then forward_step g st
      else if queue (backward st) \<noteq> [] then backward_step g st
      else Returns st)"

definition running :: "search_state \<Rightarrow> bool" where
  "running st = ((queue (forward st) \<noteq> [] \<or> queue (backward st) \<noteq> []) \<and> \<not> stop_check st)"

text \<open>
  Termination of the loops: a shifted entry either leaves the queue shorter, or its node is
  new among the visited nodes, of which there are no more than the nodes of the graph and
  of the queue.
\<close>

fun graph_nodes :: "graph \<Rightarrow> jsid set" where
  "graph_nodes [] = {}"
| "graph_nodes ((k, es) # rest) = insert (JStr k) (fst ` set es \<union> graph_nodes rest)"

definition unsettled :: "graph \<Rightarrow> side \<Rightarrow> nat" where
  "unsettled g s = card ((graph_nodes g \<union> fst ` set (queue s)) - set (visited s))"

lemma finite_graph_nodes: "finite (graph_nodes g)"
  by (induction g rule: graph_nodes.induct) simp_all

lemma graph_nodes_key: "(k, es) \<in> set g \<Longrightarrow> JStr k \<in> graph_nodes g"
  by (induction g rule: graph_nodes.induct) auto

lemma graph_nodes_dest: "(k, es) \<in> set g \<Longrightarrow> (n, w) \<in> set es \<Longrightarrow> n \<in> graph_nodes g"
  by (induction g rule: graph_nodes.induct) (auto intro: rev_image_eqI)

lemma le_Infinity [simp]: "x \<le> Infinity"
  by (cases x) simp_all

lemma plus_Infinity [simp]: "x + Infinity = Infinity"
  by (cases x) simp_all

lemma Infinity_le [simp]: "Infinity \<le> x \<longleftrightarrow> x = Infinity"
  by (cases x) simp_all

lemma not_less_Infinity [simp]: "\<not> Infinity < x"
  by (cases x) simp_all

lemma and_then_Returns:
  "and_then x f = Returns y \<longleftrightarrow> (\<exists>v. x = Returns v \<and> f v = Returns y)"
  by (cases x) simp_all

lemma map_outcome_Returns:
  "map_outcome f x = Returns y \<longleftrightarrow> (\<exists>v. x = Returns v \<and> y = f v)"
  by (cases x) (auto simp: map_outcome_def)

lemma map_outcome_simps [simp]:
  "map_outcome f (Returns v) = Returns (f v)"
  "map_outcome f Throws = Throws"
  "map_outcome f Hangs = Hangs"
  "map_outcome f Unmodelled = Unmodelled"
  by (simp_all add: map_outcome_def)

lemma and_then_cong:
  "x = y \<Longrightarrow> (\<And>v. y = Returns v \<Longrightarrow> f v = g v) \<Longrightarrow> and_then x f = and_then y g"
  by (cases y) simp_all

lemma visited_relax_edge: "relax_edge c n w s = Returns s' \<Longrightarrow> visited s' = visited s"
  by (auto simp: relax_edge_def Let_def split: slot.splits if_splits)

lemma queue_relax_edge:
  "relax_edge c n w s = Returns s' \<Longrightarrow> fst ` set (queue s') \<subseteq> insert n (fst ` set (queue s))"
  by (auto simp: relax_edge_def Let_def split: slot.splits if_splits)

lemma visited_relax_all: "relax_all c es s = Returns s' \<Longrightarrow> visited s' = visited s"
proof (induction c es s rule: relax_all.induct)
  case (1 c s)
  then show ?case by simp
next
  case (2 c n w rest s)
  from 2(2) obtain s1 where s1: "relax_edge c n w s = Returns s1" "relax_all c rest s1 = Returns s'"
    by (auto simp: and_then_Returns)
  from 2(1) [OF s1(2)] visited_relax_edge [OF s1(1)] show ?case by simp
qed

lemma queue_relax_all:
  "relax_all c es s = Returns s' \<Longrightarrow> fst ` set (queue s') \<subseteq> fst ` set es \<union> fst ` set (queue s)"
proof (induction c es s rule: relax_all.induct)
  case (1 c s)
  then show ?case by simp
next
  case (2 c n w rest s)
  from 2(2) obtain s1 where s1: "relax_edge c n w s = Returns s1" "relax_all c rest s1 = Returns s'"
    by (auto simp: and_then_Returns)
  from 2(1) [OF s1(2)] queue_relax_edge [OF s1(1)] show ?case by auto
qed

definition incoming :: "jsid \<Rightarrow> graph \<Rightarrow> edge list" where
  "incoming current g =
     concat (map (\<lambda>(sourceNode, edges).
       map (\<lambda>(node, weight). (JStr sourceNode, weight))
         (filter (\<lambda>(node, weight). jsString node = jsString current) edges)) g)"

lemma relax_all_append:
  "relax_all c (xs @ ys) s = and_then (relax_all c xs s) (relax_all c ys)"
proof (induction c xs s rule: relax_all.induct)
  case (1 c s)
  show ?case by simp
next
  case (2 c n w rest s)
  then show ?case by (cases "relax_edge c n w s") simp_all
qed

lemma relax_incoming_edges_eq:
  "relax_incoming_edges c k es s =
     relax_all c (map (\<lambda>(node, weight). (JStr k, weight))
       (filter (\<lambda>(node, weight). jsString node = jsString c) es)) s"
  by (induction c k es s rule: relax_incoming_edges.induct) (simp_all cong: and_then_cong)

lemma relax_incoming_eq: "relax_incoming c g s = relax_all c (incoming c g) s"
proof (induction c g s rule: relax_incoming.induct)
  case (1 c s)
  show ?case by (simp add: incoming_def)
next
  case (2 c k es rest s)
  have i: "incoming c ((k, es) # rest)
             = map (\<lambda>(node, weight). (JStr k, weight))
                 (filter (\<lambda>(node, weight). jsString node = jsString c) es) @ incoming c rest"
    by (simp add: incoming_def)
  show ?case
    unfolding i relax_all_append relax_incoming.simps relax_incoming_edges_eq
    by (cases "relax_all c (map (\<lambda>(node, weight). (JStr k, weight))
                 (filter (\<lambda>(node, weight). jsString node = jsString c) es)) s")
       (simp_all add: 2 [unfolded relax_incoming_edges_eq])
qed

lemma neighbors_nodes: "neighbors g c = Returns es \<Longrightarrow> fst ` set es \<subseteq> graph_nodes g"
proof
  fix n assume r: "neighbors g c = Returns es" and "n \<in> fst ` set es"
  then obtain w where w: "(n, w) \<in> set es" by auto
  with r have "map_of g (jsString c) = Some es"
    by (cases "map_of g (jsString c)")
       (auto simp: neighbors_def graph_at_def js_get_def split: if_splits)
  with w show "n \<in> graph_nodes g"
    by (auto dest!: map_of_SomeD intro: graph_nodes_dest)
qed

lemma incoming_nodes: "fst ` set (incoming c g) \<subseteq> graph_nodes g"
  by (auto simp: incoming_def intro: graph_nodes_key)

lemma pop_SomeD:
  assumes "pop s = Some ((c, d), s1)"
  shows "set (queue s) = insert (c, d) (set (queue s1))"
    and "Suc (length (queue s1)) = length (queue s)"
    and "visited s1 = visited s"
    and "\<forall>e \<in> set (queue s1). d \<le> snd e"
proof -
  from assms obtain rest where so: "sort_key snd (queue s) = (c, d) # rest"
    and s1: "s1 = s\<lparr>queue := rest, pops := Suc (pops s)\<rparr>"
    by (auto simp: pop_def split: list.splits)
  have "set (queue s) = set (sort_key snd (queue s))" by simp
  then show "set (queue s) = insert (c, d) (set (queue s1))"
    unfolding so using s1 by simp
  have "length (queue s) = length (sort_key snd (queue s))" by simp
  then show "Suc (length (queue s1)) = length (queue s)"
    unfolding so using s1 by simp
  show "visited s1 = visited s" using s1 by simp
  have "sorted (map snd (sort_key snd (queue s)))" by (rule sorted_sort_key)
  then show "\<forall>e \<in> set (queue s1). d \<le> snd e"
    unfolding so using s1 by auto
qed

lemma unsettled_skip:
  assumes "pop s = Some ((c, d), s1)"
  shows "unsettled g s1 \<le> unsettled g s"
proof -
  have "(graph_nodes g \<union> fst ` set (queue s1)) - set (visited s1)
        \<subseteq> (graph_nodes g \<union> fst ` set (queue s)) - set (visited s)"
    using pop_SomeD(1,3) [OF assms] by auto
  then show ?thesis
    unfolding unsettled_def by (intro card_mono) (auto simp: finite_graph_nodes)
qed

lemma unsettled_new:
  assumes "pop s = Some ((c, d), s1)" and "c \<notin> set (visited s1)"
    and "set (visited s') = insert c (set (visited s))"
    and "fst ` set (queue s') \<subseteq> graph_nodes g \<union> fst ` set (queue s)"
  shows "unsettled g s' < unsettled g s"
proof -
  have c: "c \<in> fst ` set (queue s)" "c \<notin> set (visited s)"
    using pop_SomeD(1,3) [OF assms(1)] assms(2) by force+
  have "(graph_nodes g \<union> fst ` set (queue s')) - set (visited s')
        \<subset> (graph_nodes g \<union> fst ` set (queue s)) - set (visited s)"
    using assms(3,4) c by auto
  then show ?thesis
    unfolding unsettled_def by (intro psubset_card_mono) (auto simp: finite_graph_nodes)
qed

lemma unsettled_settle:
  assumes "pop s = Some ((c, d), s1)" and "\<not> skipped c s1"
    and "fst ` set es \<subseteq> graph_nodes g"
    and "relax_all c es (settle c s1) = Returns s'"
  shows "unsettled g s' < unsettled g s"
proof (rule unsettled_new [OF assms(1)])
  show "c \<notin> set (visited s1)"
    using assms(2) by (simp add: skipped_def)
  show "set (visited s') = insert c (set (visited s))"
    using pop_SomeD(3) [OF assms(1)] visited_relax_all [OF assms(4)] by (simp add: settle_def)
  show "fst ` set (queue s') \<subseteq> graph_nodes g \<union> fst ` set (queue s)"
    using queue_relax_all [OF assms(4)] assms(3) pop_SomeD(1) [OF assms(1)]
    by (auto simp: settle_def)
qed

function dijkstra_loop :: "graph \<Rightarrow> jsid \<Rightarrow> side \<Rightarrow> side outcome" where
  "dijkstra_loop g end s =
     (case pop s of None \<Rightarrow> Returns s
      | Some ((current, currentDist), s1) \<Rightarrow>
          if skipped current s1 then dijkstra_loop g end s1
          else if current = end then Returns (settle current s1)
          else
            (case neighbors g current of
               Returns es \<Rightarrow>
                 (case relax_all current es (settle current s1) of
                    Returns s2 \<Rightarrow> dijkstra_loop g end s2
                  | Throws \<Rightarrow> Throws | Hangs \<Rightarrow> Hangs | Unmodelled \<Rightarrow> Unmodelled)
             | Throws \<Rightarrow> Throws | Hangs \<Rightarrow> Hangs | Unmodelled \<Rightarrow> Unmodelled))"
  by pat_completeness auto
termination
proof (relation "measures [\<lambda>(g, e, s). unsettled g s, \<lambda>(g, e, s). length (queue s)]")
  show "wf (measures [\<lambda>(g, e, s). unsettled g s, \<lambda>(g, e, s). length (queue s)])"
    by simp
next
  fix g e s x2 x1 s1 c d
  assume "pop s = Some x2" "(x1, s1) = x2" "(c, d) = x1" "skipped c s1"
  then have p: "pop s = Some ((c, d), s1)" by simp
  from unsettled_skip [OF p, of g] pop_SomeD(2) [OF p]
  show "((g, e, s1), (g, e, s)) \<in> measures [\<lambda>(g, e, s). unsettled g s, \<lambda>(g, e, s). length (queue s)]"
    by auto
next
  fix g e s x2 x1 s1 c d es s2
  assume "pop s = Some x2" "(x1, s1) = x2" "(c, d) = x1" "\<not> skipped c s1" "c \<noteq> e"
    and n: "neighbors g c = Returns es" and r: "relax_all c es (settle c s1) = Returns s2"
  then have p: "pop s = Some ((c, d), s1)" and ns: "\<not> skipped c s1" by simp_all
  from unsettled_settle [OF p ns neighbors_nodes [OF n] r]
  show "((g, e, s2), (g, e, s)) \<in> measures [\<lambda>(g, e, s). unsettled g s, \<lambda>(g, e, s). length (queue s)]"
    by auto
qed

lemma running_nonempty:
  "running st \<Longrightarrow> queue (forward st) \<noteq> [] \<and> queue (backward st) \<noteq> []"
  by (auto simp: running_def stop_check_def minDist_def split: list.splits)

lemma pop_nonempty: "queue s \<noteq> [] \<Longrightarrow> \<exists>c d s1. pop s = Some ((c, d), s1)"
proof -
  assume "queue s \<noteq> []"
  then have "length (sort_key snd (queue s)) \<noteq> 0" by simp
  then have "sort_key snd (queue s) \<noteq> []" by (simp del: length_sort)
  then show ?thesis
    by (cases "sort_key snd (queue s)") (auto simp: pop_def)
qed

lemma meet_sides [simp]: "forward (meet c st) = forward st" "backward (meet c st) = backward st"
  by (simp_all add: meet_def split: slot.splits)

definition side_less :: "graph \<Rightarrow> side \<Rightarrow> side \<Rightarrow> bool" where
  "side_less g s' s =
     (unsettled g s' < unsettled g s \<or>
      unsettled g s' \<le> unsettled g s \<and> length (queue s') < length (queue s))"

lemma forward_step_less:
  assumes "queue (forward st) \<noteq> []" and "forward_step g st = Returns st'"
  shows "side_less g (forward st') (forward st) \<and> backward st' = backward st"
proof -
  from pop_nonempty [OF assms(1)] obtain c d f1 where p: "pop (forward st) = Some ((c, d), f1)"
    by blast
  show ?thesis
  proof (cases "skipped c f1")
    case True
    with p assms(2) unsettled_skip [OF p, of g] pop_SomeD(2) [OF p] show ?thesis
      by (auto simp: forward_step_def side_less_def)
  next
    case False
    with p assms(2) obtain es f where es: "neighbors g c = Returns es"
      and f: "relax_all c es (settle c f1) = Returns f"
      and st': "forward st' = f" "backward st' = backward st"
      by (auto simp: forward_step_def Let_def and_then_Returns map_outcome_Returns
            split: if_splits)
    from unsettled_settle [OF p False neighbors_nodes [OF es] f] st' show ?thesis
      by (simp add: side_less_def)
  qed
qed

lemma backward_step_less:
  assumes "queue (backward st) \<noteq> []" and "backward_step g st = Returns st'"
  shows "side_less g (backward st') (backward st) \<and> forward st' = forward st"
proof -
  from pop_nonempty [OF assms(1)] obtain c d b1 where p: "pop (backward st) = Some ((c, d), b1)"
    by blast
  show ?thesis
  proof (cases "skipped c b1")
    case True
    with p assms(2) unsettled_skip [OF p, of g] pop_SomeD(2) [OF p] show ?thesis
      by (auto simp: backward_step_def side_less_def)
  next
    case False
    with p assms(2) obtain b where b: "relax_all c (incoming c g) (settle c b1) = Returns b"
      and st': "backward st' = b" "forward st' = forward st"
      by (auto simp: backward_step_def Let_def map_outcome_Returns relax_incoming_eq
            split: if_splits)
    from unsettled_settle [OF p False incoming_nodes b] st' show ?thesis
      by (simp add: side_less_def)
  qed
qed

function search_loop :: "graph \<Rightarrow> search_state \<Rightarrow> search_state outcome" where
  "search_loop g st =
     (if running st
      then (case loop_body g st of Returns st' \<Rightarrow> search_loop g st'
            | Throws \<Rightarrow> Throws | Hangs \<Rightarrow> Hangs | Unmodelled \<Rightarrow> Unmodelled)
      else Returns st)"
  by pat_completeness auto
termination
proof (relation "measures [\<lambda>(g, st). unsettled g (forward st) + unsettled g (backward st),
                           \<lambda>(g, st). length (queue (forward st)) + length (queue (backward st))]")
  show "wf (measures [\<lambda>(g, st). unsettled g (forward st) + unsettled g (backward st),
                       \<lambda>(g, st). length (queue (forward st)) + length (queue (backward st))])"
    by simp
next
  fix g st st'
  assume "running st" and b: "loop_body g st = Returns st'"
  then have ne: "queue (forward st) \<noteq> []" "queue (backward st) \<noteq> []"
    using running_nonempty by blast+
  show "((g, st'), (g, st)) \<in>
          measures [\<lambda>(g, st). unsettled g (forward st) + unsettled g (backward st),
                    \<lambda>(g, st). length (queue (forward st)) + length (queue (backward st))]"
  proof (cases "minDist (queue (forward st)) \<le> minDist (queue (backward st))")
    case True
    with b ne have "forward_step g st = Returns st'" by (simp add: loop_body_def)
    from forward_step_less [OF ne(1) this] show ?thesis
      by (auto simp: side_less_def)
  next
    case False
    with b ne have "backward_step g st = Returns st'" by (simp add: loop_body_def)
    from backward_step_less [OF ne(2) this] show ?thesis
      by (auto simp: side_less_def)
  qed
qed

declare search_loop.simps [simp del]
declare dijkstra_loop.simps [simp del]

section \<open>Path reconstruction and the two searches\<close>

text \<open>
  A search returns \<open>{path, distance}\<close>; the distance of \<open>dijkstra\<close> is the read
  \<open>distances[end]\<close>. The loops \<open>while (u) { path.unshift(u); u = prev[u]; }\<close> and
  \<open>while (u) { path.push(u); u = prev[u]; }\<close> follow the predecessors and need not end on
  an arbitrary map: they are partial, and a search whose walk does not end is \<open>Hangs\<close>.
  A run returns, with the result, the number of entries shifted from the queues.
\<close>

record result =
  path :: "jsid list"
  distance :: "jsnum slot"

partial_function (option) walk_back :: "(string \<rightharpoonup> jsid) \<Rightarrow> jsid \<Rightarrow> jsid list \<Rightarrow> jsid list option" where
  "walk_back p u acc = (if truthy u then walk_back p (prev_at p u) (u # acc) else Some acc)"

partial_function (option) walk_on :: "(string \<rightharpoonup> jsid) \<Rightarrow> jsid \<Rightarrow> jsid list \<Rightarrow> jsid list option" where
  "walk_on p u acc = (if truthy u then walk_on p (prev_at p u) (acc @ [u]) else Some acc)"

declare walk_back.simps [code]
declare walk_on.simps [code]

definition ended :: "'a option \<Rightarrow> 'a outcome" where
  "ended x = (case x of None \<Rightarrow> Hangs | Some v \<Rightarrow> Returns v)"

text \<open>
  The test \<open>distancesForward[start] === undefined || distancesBackward[end] === undefined\<close>
  and the first entries of the two queues. An endpoint that has the name of an inherited
  property passes the test without being a node of the graph.
\<close>

definition bd_init :: "graph \<Rightarrow> jsid \<Rightarrow> jsid \<Rightarrow> search_state option" where
  "bd_init g start end =
     (let s = init_side g
      in if js_get (distances s) (jsString start) = Undefined
            \<or> js_get (distances s) (jsString end) = Undefined then None
         else Some \<lparr>forward = source_side start s, backward = source_side end s,
                    bestDistance = Infinity, meetingNode = JNull\<rparr>)"

definition reconstruct :: "search_state \<Rightarrow> result outcome" where
  "reconstruct st =
     (if meetingNode st \<noteq> JNull
      then
        and_then (ended (walk_back (prev (forward st)) (meetingNode st) []))
          (\<lambda>p1. and_then
             (ended (walk_on (prev (backward st)) (prev_at (prev (backward st)) (meetingNode st)) p1))
             (\<lambda>p2. Returns \<lparr>path = p2, distance = Own (bestDistance st)\<rparr>))
      else Returns \<lparr>path = [], distance = Own Infinity\<rparr>)"

definition bidirectionalDijkstra_run :: "graph \<Rightarrow> jsid \<Rightarrow> jsid \<Rightarrow> (result \<times> nat) outcome" where
  "bidirectionalDijkstra_run g start end =
     (if start = end then Returns (\<lparr>path = [start], distance = Own (Fin 0)\<rparr>, 0)
      else if proto_key g [start, end] then Unmodelled
      else
        (case bd_init g start end of
           None \<Rightarrow> Returns (\<lparr>path = [], distance = Own Infinity\<rparr>, 0)
         | Some st0 \<Rightarrow>
             and_then (search_loop g st0)
               (\<lambda>st. map_outcome (\<lambda>r. (r, pops (forward st) + pops (backward st)))
                        (reconstruct st))))"

definition bidirectionalDijkstra :: "graph \<Rightarrow> jsid \<Rightarrow> jsid \<Rightarrow> result outcome" where
  "bidirectionalDijkstra g start end = map_outcome fst (bidirectionalDijkstra_run g start end)"

definition dijkstra_run :: "graph \<Rightarrow> jsid \<Rightarrow> jsid \<Rightarrow> (result \<times> nat) outcome" where
  "dijkstra_run g start end =
     (if start = end then Returns (\<lparr>path = [start], distance = Own (Fin 0)\<rparr>, 0)
      else if proto_key g [start, end] then Unmodelled
      else
        (let s0 = init_side g
         in if js_get (distances s0) (jsString start) = Undefined
            then Returns (\<lparr>path = [], distance = Own Infinity\<rparr>, 0)
            else
              and_then (dijkstra_loop g end (source_side start s0))
                (\<lambda>s. and_then
                   (if prev_at (prev s) end \<noteq> JNull \<or> end = start
                    then ended (walk_back (prev s) end []) else Returns [])
                   (\<lambda>p. if (case p of [] \<Rightarrow> JUndefined | x # _ \<Rightarrow> x) \<noteq> start
                        then Returns (\<lparr>path = [], distance = Own Infinity\<rparr>, pops s)
                        else Returns (\<lparr>path = p, distance = js_get (distances s) (jsString end)\<rparr>,
                                      pops s)))))"

definition dijkstra :: "graph \<Rightarrow> jsid \<Rightarrow> jsid \<Rightarrow> result outcome" where
  "dijkstra g start end = map_outcome fst (dijkstra_run g start end)"


subsection \<open>The first server variant\<close>

text \<open>
  The oldest \<open>dijkstra\<close> has no special case for equal endpoints, initialises the source
  keys only, has no validity test, does not set an undefined distance to \<open>Infinity\<close>
  before the comparison (which is then false) and does not test \<open>current\<close> for
  truthiness.
\<close>

definition relax_edge_plain :: "jsid \<Rightarrow> jsid \<Rightarrow> real \<Rightarrow> side \<Rightarrow> side outcome" where
  "relax_edge_plain current neighbor weight s =
     (case js_get (distances s) (jsString current) of
        Own dc \<Rightarrow>
          (case js_get (distances s) (jsString neighbor) of
             Own dn \<Rightarrow>
               if dc + Fin weight < dn
               then Returns (s\<lparr>distances := (distances s)(jsString neighbor \<mapsto> dc + Fin weight),
                               prev := (prev s)(jsString neighbor \<mapsto> current),
                               queue := queue s @ [(neighbor, dc + Fin weight)]\<rparr>)
               else Returns s
           | _ \<Rightarrow> Returns s)
      | Undefined \<Rightarrow> Returns s
      | Inherited k \<Rightarrow>
          (case js_get (distances s) (jsString neighbor) of
             Inherited k' \<Rightarrow> Unmodelled
           | _ \<Rightarrow> Returns s))"

fun relax_all_plain :: "jsid \<Rightarrow> edge list \<Rightarrow> side \<Rightarrow> side outcome" where
  "relax_all_plain current [] s = Returns s"
| "relax_all_plain current ((neighbor, weight) # rest) s =
     and_then (relax_edge_plain current neighbor weight s) (relax_all_plain current rest)"

lemma visited_relax_all_plain: "relax_all_plain c es s = Returns s' \<Longrightarrow> visited s' = visited s"
proof (induction c es s rule: relax_all_plain.induct)
  case (1 c s)
  then show ?case by simp
next
  case (2 c n w rest s)
  from 2(2) obtain s1 where s1: "relax_edge_plain c n w s = Returns s1"
    "relax_all_plain c rest s1 = Returns s'"
    by (auto simp: and_then_Returns)
  from s1(1) have "visited s1 = visited s"
    by (auto simp: relax_edge_plain_def split: slot.splits if_splits)
  with 2(1) [OF s1(2)] show ?case by simp
qed

lemma queue_relax_all_plain:
  "relax_all_plain c es s = Returns s'
   \<Longrightarrow> fst ` set (queue s') \<subseteq> fst ` set es \<union> fst ` set (queue s)"
proof (induction c es s rule: relax_all_plain.induct)
  case (1 c s)
  then show ?case by simp
next
  case (2 c n w rest s)
  from 2(2) obtain s1 where s1: "relax_edge_plain c n w s = Returns s1"
    "relax_all_plain c rest s1 = Returns s'"
    by (auto simp: and_then_Returns)
  from s1(1) have "fst ` set (queue s1) \<subseteq> insert n (fst ` set (queue s))"
    by (auto simp: relax_edge_plain_def split: slot.splits if_splits)
  with 2(1) [OF s1(2)] show ?case by auto
qed

lemma unsettled_settle_plain:
  assumes "pop s = Some ((c, d), s1)" and "c \<notin> set (visited s1)"
    and "neighbors g c = Returns es"
    and "relax_all_plain c es (settle c s1) = Returns s'"
  shows "unsettled g s' < unsettled g s"
proof (rule unsettled_new [OF assms(1,2)])
  show "set (visited s') = insert c (set (visited s))"
    using pop_SomeD(3) [OF assms(1)] visited_relax_all_plain [OF assms(4)]
    by (simp add: settle_def)
  show "fst ` set (queue s') \<subseteq> graph_nodes g \<union> fst ` set (queue s)"
    using queue_relax_all_plain [OF assms(4)] neighbors_nodes [OF assms(3)]
      pop_SomeD(1) [OF assms(1)]
    by (auto simp: settle_def)
qed

function dijkstra_plain_loop :: "graph \<Rightarrow> jsid \<Rightarrow> side \<Rightarrow> side outcome" where
  "dijkstra_plain_loop g end s =
     (case pop s of None \<Rightarrow> Returns s
      | Some ((current, currentDist), s1) \<Rightarrow>
          if current \<in> set (visited s1) then dijkstra_plain_loop g end s1
          else if current = end then Returns (settle current s1)
          else
            (case neighbors g current of
               Returns es \<Rightarrow>
                 (case relax_all_plain current es (settle current s1) of
                    Returns s2 \<Rightarrow> dijkstra_plain_loop g end s2
                  | Throws \<Rightarrow> Throws | Hangs \<Rightarrow> Hangs | Unmodelled \<Rightarrow> Unmodelled)
             | Throws \<Rightarrow> Throws | Hangs \<Rightarrow> Hangs | Unmodelled \<Rightarrow> Unmodelled))"
  by pat_completeness auto
termination
proof (relation "measures [\<lambda>(g, e, s). unsettled g s, \<lambda>(g, e, s). length (queue s)]")
  show "wf (measures [\<lambda>(g, e, s). unsettled g s, \<lambda>(g, e, s). length (queue s)])"
    by simp
next
  fix g e s x2 x1 s1 c d
  assume "pop s = Some x2" "(x1, s1) = x2" "(c, d) = x1" "c \<in> set (visited s1)"
  then have p: "pop s = Some ((c, d), s1)" by simp
  from unsettled_skip [OF p, of g] pop_SomeD(2) [OF p]
  show "((g, e, s1), (g, e, s)) \<in> measures [\<lambda>(g, e, s). unsettled g s, \<lambda>(g, e, s). length (queue s)]"
    by auto
next
  fix g e s x2 x1 s1 c d es s2
  assume "pop s = Some x2" "(x1, s1) = x2" "(c, d) = x1" "c \<notin> set (visited s1)" "c \<noteq> e"
    and n: "neighbors g c = Returns es" and r: "relax_all_plain c es (settle c s1) = Returns s2"
  then have p: "pop s = Some ((c, d), s1)" and ns: "c \<notin> set (visited s1)" by simp_all
  from unsettled_settle_plain [OF p ns n r]
  show "((g, e, s2), (g, e, s)) \<in> measures [\<lambda>(g, e, s). unsettled g s, \<lambda>(g, e, s). length (queue s)]"
    by auto
qed

declare dijkstra_plain_loop.simps [simp del]

definition dijkstra_plain :: "graph \<Rightarrow> jsid \<Rightarrow> jsid \<Rightarrow> result outcome" where
  "dijkstra_plain g start end =
     (if proto_key g [start, end] then Unmodelled
      else
        and_then (dijkstra_plain_loop g end (source_side start (init_sources g empty_side)))
          (\<lambda>s. map_outcome (\<lambda>p. \<lparr>path = p, distance = js_get (distances s) (jsString end)\<rparr>)
                 (if prev_at (prev s) end \<noteq> JNull \<or> end = start
                  then ended (walk_back (prev s) end []) else Returns [])))"

section \<open>Indoor classification\<close>

record location = point +
  accuracy :: "real option"
  altitude :: "real option"
  speed :: "real option"

record detection =
  isIndoor :: bool
  confidence :: real

record gps_result = detection +
  gps_accuracy :: jsnum
  hasAltitude :: bool
  hasSpeed :: bool

text \<open>
  A missing field and the number 0 are both falsy: \<open>x || d\<close> is \<open>d\<close> and \<open>!x\<close> is true
  for them.
\<close>

definition absent :: "real option \<Rightarrow> bool" where
  "absent x = (x = None \<or> x = Some 0)"

definition score_confidence :: "nat \<Rightarrow> nat \<Rightarrow> real" where
  "score_confidence indoorScore totalChecks = (real indoorScore / real totalChecks) * 100"

definition detectIndoorFromGPS :: "'a location_scheme \<Rightarrow> gps_result" where
  "detectIndoorFromGPS gpsData =
     (let acc = (case accuracy gpsData of None \<Rightarrow> Infinity
                 | Some a \<Rightarrow> if a = 0 then Infinity else Fin a);
          indoorScore = (if Fin 20 < acc then 3 else 0)
                      + (if absent (altitude gpsData) then 1 else 0)
                      + (if absent (speed gpsData) then 1 else 0);
          totalChecks = 3
      in \<lparr>isIndoor = (2 \<le> indoorScore),
          confidence = score_confidence indoorScore totalChecks,
          gps_accuracy = acc,
          hasAltitude = (\<not> absent (altitude gpsData)),
          hasSpeed = (\<not> absent (speed gpsData))\<rparr>)"

text \<open>
  The device information is JSON of the request body and is not validated. An entry of
  \<open>networks\<close> is \<open>null\<close> (\<open>NoNetwork\<close>) or a value whose \<open>signalStrength\<close> is a number or is
  missing; the field \<open>networks\<close> itself is falsy or missing (\<open>NoNetworks\<close>), an array, or
  some other truthy value (\<open>NotAnArray\<close>). \<open>wifiData.networks.reduce(...)\<close> throws a
  \<open>TypeError\<close> on a value that is not an array, and \<open>net.signalStrength\<close> throws it on
  \<open>null\<close>. A sum with a missing strength, and the average over no network (\<open>0 / 0\<close>), are
  not a number, which compares false: \<open>None\<close> here.
\<close>

datatype network = NoNetwork | Network "real option"

datatype network_field = NoNetworks | NotAnArray | Networks "network list"

record wifi_data =
  networks :: network_field

fun signal_sum :: "network list \<Rightarrow> real option \<Rightarrow> real option outcome" where
  "signal_sum [] acc = Returns acc"
| "signal_sum (NoNetwork # rest) acc = Throws"
| "signal_sum (Network strength # rest) acc =
     signal_sum rest (case (acc, strength) of (Some a, Some b) \<Rightarrow> Some (a + b) | _ \<Rightarrow> None)"

record wifi_result = detection +
  networkCount :: "nat option"
  averageSignal :: "real option"

definition analyzeWiFiNetworks :: "wifi_data option \<Rightarrow> wifi_result outcome" where
  "analyzeWiFiNetworks wifiData =
     (case (case wifiData of None \<Rightarrow> NoNetworks | Some w \<Rightarrow> networks w) of
        NoNetworks \<Rightarrow>
          Returns \<lparr>isIndoor = False, confidence = 0, networkCount = None, averageSignal = None\<rparr>
      | NotAnArray \<Rightarrow> Throws
      | Networks nets \<Rightarrow>
          and_then (signal_sum nets (Some 0))
            (\<lambda>signals.
               let count = length nets;
                   average = (case signals of None \<Rightarrow> None
                              | Some t \<Rightarrow> if count = 0 then None else Some (t / real count));
                   indoorScore = (if 8 < count then 2 else if 5 < count then 1 else 0)
                               + (case average of Some a \<Rightarrow> if - 50 < a then 1 else 0 | None \<Rightarrow> 0);
                   totalChecks = 2
               in Returns \<lparr>isIndoor = (1 \<le> indoorScore),
                           confidence = score_confidence indoorScore totalChecks,
                           networkCount = Some count, averageSignal = average\<rparr>))"

record cellular_data =
  signalStrength :: "real option"
  networkType :: "string option"
  downlink :: "real option"

record cellular_result = detection +
  cell_signalStrength :: "real option"
  cell_networkType :: "string option"
  cell_downlink :: "real option"

definition analyzeCellularNetwork :: "cellular_data option \<Rightarrow> cellular_result" where
  "analyzeCellularNetwork cellularData =
     (case cellularData of
        None \<Rightarrow> \<lparr>isIndoor = False, confidence = 0, cell_signalStrength = None,
                  cell_networkType = None, cell_downlink = None\<rparr>
      | Some c \<Rightarrow>
          (let strength = (case signalStrength c of None \<Rightarrow> 0 | Some x \<Rightarrow> x);
               ntype = (case networkType c of None \<Rightarrow> ''unknown''
                        | Some t \<Rightarrow> if t = [] then ''unknown'' else t);
               down = (case downlink c of None \<Rightarrow> 0 | Some x \<Rightarrow> x);
               indoorScore = (if strength < 0.3 then 2 else if strength < 0.6 then 1 else 0)
                           + (if ntype = ''slow-2g'' \<or> ntype = ''2g'' then 1 else 0)
                           + (if down < 1 then 1 else 0);
               totalChecks = 3
           in \<lparr>isIndoor = (1 \<le> indoorScore),
               confidence = score_confidence indoorScore totalChecks,
               cell_signalStrength = Some strength, cell_networkType = Some ntype,
               cell_downlink = Some down\<rparr>))"

record device_info =
  wifi :: "wifi_data option"
  cellular :: "cellular_data option"

record indoor_result = detection +
  gps_details :: gps_result
  wifi_details :: wifi_result
  cellular_details :: cellular_result
  totalScore :: nat
  checksPerformed :: nat

text \<open>
  The three detectors are called in the order GPS, WiFi, cellular; the combination
  \<open>combine\<close> follows only when the WiFi analysis has returned.
\<close>

definition combine :: "gps_result \<Rightarrow> wifi_result \<Rightarrow> cellular_result \<Rightarrow> indoor_result" where
  "combine gpsResult wifiResult cellularResult =
     (let totalIndoorScore =
              (if 0 < confidence gpsResult \<and> isIndoor gpsResult then 3 else 0)
            + (if 0 < confidence wifiResult \<and> isIndoor wifiResult then 1 else 0)
            + (if 0 < confidence cellularResult \<and> isIndoor cellularResult then 1 else 0);
          totalConfidence =
              (if 0 < confidence gpsResult then confidence gpsResult else 0)
            + (if 0 < confidence wifiResult then confidence wifiResult else 0)
            + (if 0 < confidence cellularResult then confidence cellularResult else 0);
          totalChecks =
              (if 0 < confidence gpsResult then 1 else 0)
            + (if 0 < confidence wifiResult then 1 else 0)
            + (if 0 < confidence cellularResult then (1::nat) else 0)
      in \<lparr>isIndoor = (2 \<le> totalIndoorScore),
          confidence = (if 0 < totalChecks then totalConfidence / real totalChecks else 0),
          gps_details = gpsResult, wifi_details = wifiResult, cellular_details = cellularResult,
          totalScore = totalIndoorScore, checksPerformed = totalChecks\<rparr>)"

definition comprehensiveIndoorDetection ::
  "'a location_scheme \<Rightarrow> device_info option \<Rightarrow> indoor_result outcome" where
  "comprehensiveIndoorDetection locationData deviceInfo =
     (let gpsResult = detectIndoorFromGPS locationData
      in and_then (analyzeWiFiNetworks (case deviceInfo of None \<Rightarrow> None | Some d \<Rightarrow> wifi d))
           (\<lambda>wifiResult.
              Returns (combine gpsResult wifiResult
                (analyzeCellularNetwork
                   (case deviceInfo of None \<Rightarrow> None | Some d \<Rightarrow> cellular d)))))"

section \<open>The /calculate_route handlers\<close>

text \<open>
  The failure responses, by their messages: "Graph data not loaded yet" (status 503),
  "Start and end locations are too close to calculate a meaningful route", "Could not find
  a nearby road for the start or end point" ("No nearby node found" in the older
  variants) and "No route found". A handler in which a call throws or does not return
  sends no response; its outcome is then that of the call.
\<close>

datatype failure = DataUnavailable | TooClose | NoNearbyNode | NoRoute

record indoor_info =
  start_indoor :: indoor_result
  end_indoor :: indoor_result
  hasIndoorPoints :: bool

datatype response = Failure failure | Success "point list" "indoor_info option"

record request =
  req_start :: location
  req_end :: location
  deviceInfo :: "device_info option"

definition coords :: "graph_node list \<Rightarrow> jsid list \<Rightarrow> point list" where
  "coords graphNodes ids =
     List.map_filter
       (\<lambda>i. map_option (\<lambda>n. \<lparr>lat = lat n, lng = lng n\<rparr>)
              (find (\<lambda>n. jsString (node_id n) = jsString i) graphNodes)) ids"

definition coords_strict :: "graph_node list \<Rightarrow> jsid list \<Rightarrow> point list" where
  "coords_strict graphNodes ids =
     List.map_filter
       (\<lambda>i. map_option (\<lambda>n. \<lparr>lat = lat n, lng = lng n\<rparr>)
              (find (\<lambda>n. node_id n = i) graphNodes)) ids"

text \<open>The response to a search result, in each of the four variants.\<close>

definition respond_plain :: "graph_node list \<Rightarrow> result \<Rightarrow> response" where
  "respond_plain graphNodes r =
     (if length (path r) = 0 then Failure NoRoute
      else Success (coords_strict graphNodes (path r)) None)"

definition respond_index :: "graph_node list \<Rightarrow> result \<Rightarrow> response" where
  "respond_index graphNodes r =
     (if length (path r) \<le> 1 then Failure NoRoute
      else Success (coords_strict graphNodes (path r)) None)"

definition respond_retry :: "graph_node list \<Rightarrow> result \<Rightarrow> response" where
  "respond_retry graphNodes r =
     (if length (path r) < 1 then Failure NoRoute
      else Success (coords graphNodes (path r)) None)"

definition respond :: "graph_node list \<Rightarrow> indoor_info \<Rightarrow> result \<Rightarrow> response" where
  "respond graphNodes info r =
     (if length (path r) < 1 then Failure NoRoute
      else Success (coords graphNodes (path r)) (Some info))"

definition calculate_route_plain ::
  "graph_node list option \<Rightarrow> graph option \<Rightarrow> request \<Rightarrow> response outcome" where
  "calculate_route_plain graphNodes graphEdges req =
     (case (graphNodes, graphEdges) of
        (Some nodes, Some edges) \<Rightarrow>
          (let startNode = findNearestNode_plain (lat (req_start req)) (lng (req_start req)) nodes;
               endNode = findNearestNode_plain (lat (req_end req)) (lng (req_end req)) nodes
           in if \<not> truthy startNode \<or> \<not> truthy endNode then Returns (Failure NoNearbyNode)
              else map_outcome (respond_plain nodes) (dijkstra_plain edges startNode endNode))
      | _ \<Rightarrow> Returns (Failure DataUnavailable))"

definition calculate_route_index ::
  "graph_node list option \<Rightarrow> graph option \<Rightarrow> request \<Rightarrow> response outcome" where
  "calculate_route_index graphNodes graphEdges req =
     (case (graphNodes, graphEdges) of
        (Some nodes, Some edges) \<Rightarrow>
          (let startNode = findNearestNode_plain (lat (req_start req)) (lng (req_start req)) nodes;
               endNode = findNearestNode_plain (lat (req_end req)) (lng (req_end req)) nodes
           in if \<not> truthy startNode \<or> \<not> truthy endNode then Returns (Failure NoNearbyNode)
              else map_outcome (respond_index nodes) (dijkstra edges startNode endNode))
      | _ \<Rightarrow> Returns (Failure DataUnavailable))"

text \<open>
  The two later variants snap both points, retry the end point without the start node
  when the two snaps have the same \<open>String\<close>, and give up when they still agree.
\<close>

definition snap :: "graph_node list \<Rightarrow> request \<Rightarrow> jsid \<times> jsid" where
  "snap nodes req =
     (let startNode = findNearestNode (lat (req_start req)) (lng (req_start req)) nodes JUndefined;
          endNode = findNearestNode (lat (req_end req)) (lng (req_end req)) nodes JUndefined;
          endNode' = (if jsString startNode = jsString endNode
                      then findNearestNode (lat (req_end req)) (lng (req_end req)) nodes startNode
                      else endNode)
      in (startNode, endNode'))"

definition calculate_route_retry ::
  "graph_node list option \<Rightarrow> graph option \<Rightarrow> request \<Rightarrow> response outcome" where
  "calculate_route_retry graphNodes graphEdges req =
     (case (graphNodes, graphEdges) of
        (Some nodes, Some edges) \<Rightarrow>
          (let (startNode, endNode) = snap nodes req
           in if jsString startNode = jsString endNode then Returns (Failure TooClose)
              else if \<not> truthy startNode \<or> \<not> truthy endNode then Returns (Failure NoNearbyNode)
              else map_outcome (respond_retry nodes)
                     (dijkstra edges (JStr (jsString startNode)) (JStr (jsString endNode))))
      | _ \<Rightarrow> Returns (Failure DataUnavailable))"

text \<open>
  The last variant classifies both points after the test for equal snaps and before the
  test for a missing snap and the search; \<open>indoorInfo\<close> is the record that a success
  carries. A \<open>TypeError\<close> of the classification leaves the handler there.
\<close>

definition indoorInfo :: "request \<Rightarrow> indoor_info outcome" where
  "indoorInfo req =
     and_then (comprehensiveIndoorDetection (req_start req) (deviceInfo req))
       (\<lambda>startIndoor.
          and_then (comprehensiveIndoorDetection (req_end req) (deviceInfo req))
            (\<lambda>endIndoor.
               Returns \<lparr>start_indoor = startIndoor, end_indoor = endIndoor,
                        hasIndoorPoints = (isIndoor startIndoor \<or> isIndoor endIndoor)\<rparr>))"

definition calculate_route ::
  "graph_node list option \<Rightarrow> graph option \<Rightarrow> request \<Rightarrow> response outcome" where
  "calculate_route graphNodes graphEdges req =
     (case (graphNodes, graphEdges) of
        (Some nodes, Some edges) \<Rightarrow>
          (let (startNode, endNode) = snap nodes req
           in if jsString startNode = jsString endNode then Returns (Failure TooClose)
              else
                and_then (indoorInfo req)
                  (\<lambda>info.
                     if \<not> truthy startNode \<or> \<not> truthy endNode then Returns (Failure NoNearbyNode)
                     else map_outcome (respond nodes info)
                            (bidirectionalDijkstra edges (JStr (jsString startNode))
                               (JStr (jsString endNode)))))
      | _ \<Rightarrow> Returns (Failure DataUnavailable))"

section \<open>Facts about the great-circle distance\<close>

lemma atan2_nonneg: "0 \<le> y \<Longrightarrow> 0 \<le> x \<Longrightarrow> 0 \<le> atan2 y x"
  by (auto simp: atan2_def arctan_le_zero_iff not_le intro!: divide_nonneg_nonneg)

lemma hav_bounds:
  fixes x y p1 p2 :: real
  assumes h: "2 * x = p2 - p1"
  shows "0 \<le> sin x * sin x + cos p1 * cos p2 * sin y * sin y"
    and "sin x * sin x + cos p1 * cos p2 * sin y * sin y \<le> 1"
proof -
  define s where "s = sin y * sin y"
  define cd where "cd = cos (p2 - p1)"
  define cs where "cs = cos (p2 + p1)"
  have "(sin y)\<^sup>2 \<le> 1"
    using sin_squared_eq [of y] zero_le_power2 [of "cos y"] by linarith
  then have s: "0 \<le> s" "s \<le> 1"
    by (simp_all add: s_def power2_eq_square)
  have "cos (2 * x) = 1 - 2 * (sin x)\<^sup>2"
    by (rule cos_double_sin)
  then have d: "sin x * sin x = (1 - cd) / 2"
    unfolding h cd_def by (simp add: power2_eq_square)
  have c: "cos p1 * cos p2 = (cd + cs) / 2"
    by (simp add: cos_diff cos_add cd_def cs_def)
  have b: "- 1 \<le> cd" "cd \<le> 1" "- 1 \<le> cs" "cs \<le> 1"
    by (simp_all add: cd_def cs_def)
  define u where "u = cd * ((1 - s) / 2)"
  define v where "v = cs * (s / 2)"
  have "sin x * sin x + cos p1 * cos p2 * sin y * sin y = (sin x * sin x) + (cos p1 * cos p2) * s"
    by (simp add: s_def algebra_simps)
  also have "\<dots> = (1 - cd) / 2 + (cd + cs) / 2 * s"
    by (simp only: d c)
  also have "\<dots> = 1 / 2 - u + v"
    by (simp add: u_def v_def field_simps)
  finally have a: "sin x * sin x + cos p1 * cos p2 * sin y * sin y = 1 / 2 - u + v" .
  have p: "0 \<le> (1 - s) / 2" "0 \<le> s / 2"
    using s by simp_all
  have "u \<le> 1 * ((1 - s) / 2)" "(- 1) * ((1 - s) / 2) \<le> u"
    unfolding u_def
    by (rule mult_right_mono [OF b(2) p(1)], rule mult_right_mono [OF b(1) p(1)])
  then have m1: "2 * u \<le> 1 - s" "s - 1 \<le> 2 * u"
    by simp_all
  have "v \<le> 1 * (s / 2)" "(- 1) * (s / 2) \<le> v"
    unfolding v_def
    by (rule mult_right_mono [OF b(4) p(2)], rule mult_right_mono [OF b(3) p(2)])
  then have m2: "2 * v \<le> s" "- s \<le> 2 * v"
    by simp_all
  have "0 \<le> 1 - 2 * u + 2 * v" "1 - 2 * u + 2 * v \<le> 2"
    using m1 m2 by linarith+
  then have r: "0 \<le> 1 / 2 - u + v" "1 / 2 - u + v \<le> 1"
    by simp_all
  show "0 \<le> sin x * sin x + cos p1 * cos p2 * sin y * sin y"
    unfolding a by (rule r)
  show "sin x * sin x + cos p1 * cos p2 * sin y * sin y \<le> 1"
    unfolding a by (rule r)
qed

lemma haversine_nonneg: "0 \<le> haversine lat1 lng1 lat2 lng2"
proof -
  have h: "2 * ((lat2 - lat1) * pi / 180 / 2) = lat2 * pi / 180 - lat1 * pi / 180"
    by (simp add: field_simps)
  note hb = hav_bounds [OF h, of "(lng2 - lng1) * pi / 180 / 2"]
  show ?thesis
    unfolding haversine_def Let_def
    using hb by (intro mult_nonneg_nonneg atan2_nonneg real_sqrt_ge_zero) simp_all
qed

lemma haversine_same [simp]: "haversine la lo la lo = 0"
  by (simp add: haversine_def atan2_def)


section \<open>Nearest-node lookup\<close>

lemma nearest_scan_filter:
  "nearest_scan la lo ex ns acc
   = nearest_scan_plain la lo (filter (\<lambda>n. \<not> excluded ex n) ns) acc"
  by (induction la lo ex ns acc rule: nearest_scan.induct) (simp_all add: Let_def)

lemma nearest_scan_plain_result:
  "snd (nearest_scan_plain la lo ns acc) = snd acc
   \<or> snd (nearest_scan_plain la lo ns acc) \<in> node_id ` set ns"
  by (induction la lo ns acc rule: nearest_scan_plain.induct) (auto simp: Let_def)

lemma findNearestNode_result:
  "findNearestNode la lo ns ex = JNull \<or> findNearestNode la lo ns ex \<in> node_id ` set ns"
  using nearest_scan_plain_result
    [of la lo "filter (\<lambda>n. \<not> excluded (if ex = JUndefined then JNull else ex) n) ns" "(Infinity, JNull)"]
  by (auto simp: findNearestNode_def nearest_scan_filter)

text \<open>
  C10. A falsy \<open>excludeNodeId\<close> (null, undefined, 0, the empty string) skips no node: the
  lookup is the plain scan of the whole list. A truthy one skips exactly the nodes whose
  \<open>String(id)\<close> equals \<open>String(excludeNodeId)\<close>: the lookup is the plain scan of the others.
\<close>

theorem findNearestNode_exclusion:
  "(\<not> truthy ex \<longrightarrow>
      (\<forall>n. \<not> excluded ex n)
      \<and> findNearestNode la lo nodes ex = findNearestNode_plain la lo nodes)
   \<and> (truthy ex \<longrightarrow>
      (\<forall>n. excluded ex n \<longleftrightarrow> jsString (node_id n) = jsString ex)
      \<and> findNearestNode la lo nodes ex
          = findNearestNode_plain la lo (filter (\<lambda>n. jsString (node_id n) \<noteq> jsString ex) nodes))"
proof (cases "truthy ex")
  case True
  then have "ex \<noteq> JUndefined" by auto
  with True show ?thesis
    by (simp add: findNearestNode_def findNearestNode_plain_def nearest_scan_filter excluded_def)
next
  case False
  then have "\<not> truthy (if ex = JUndefined then JNull else ex)" by simp
  with False show ?thesis
    by (simp add: findNearestNode_def findNearestNode_plain_def nearest_scan_filter excluded_def)
qed

definition node_zero :: graph_node where
  "node_zero = \<lparr>lat = 0, lng = 0, node_id = JNum 0\<rparr>"

definition node_seven :: graph_node where
  "node_seven = \<lparr>lat = 0, lng = 1, node_id = JNum 7\<rparr>"

theorem findNearestNode_exclusion_witness:
  "\<not> truthy (JNum 0) \<and> \<not> truthy (JStr [])
   \<and> findNearestNode 0 0 [node_zero, node_seven] (JNum 0) = JNum 0
   \<and> findNearestNode 0 0 [node_zero, node_seven] JNull = JNum 0
   \<and> truthy (JStr ''0'')
   \<and> findNearestNode 0 0 [node_zero, node_seven] (JStr ''0'') = JNum 7"
proof -
  have h: "\<not> Fin (haversine 0 1 0 0) < Fin 0"
    using haversine_nonneg [of 0 1 0 0] by simp
  have p: "findNearestNode_plain 0 0 [node_zero, node_seven] = JNum 0"
    using h by (simp add: findNearestNode_plain_def node_zero_def node_seven_def)
  have q: "findNearestNode_plain 0 0 [node_seven] = JNum 7"
    by (simp add: findNearestNode_plain_def node_seven_def)
  have s: "show_int 0 = ''0''" "show_int 7 = ''7''"
    by (simp_all add: show_int_def)
  have i: "node_id node_zero = JNum 0" "node_id node_seven = JNum 7"
    by (simp_all add: node_zero_def node_seven_def)
  show ?thesis
    using findNearestNode_exclusion [of "JNum 0" 0 0 "[node_zero, node_seven]"]
      findNearestNode_exclusion [of JNull 0 0 "[node_zero, node_seven]"]
      findNearestNode_exclusion [of "JStr ''0''" 0 0 "[node_zero, node_seven]"]
    by (simp add: p q s i)
qed

section \<open>The routable node filter\<close>

text \<open>
  The set S of the specification: every id that is an edge source key or the canonical
  form of an edge destination.
\<close>

definition endpoint_ids :: "graph \<Rightarrow> string set" where
  "endpoint_ids g =
     fst ` set g \<union> (\<Union>(sourceNode, edges) \<in> set g. (\<lambda>(node, weight). jsString node) ` set edges)"

lemma add_destinations_eq:
  "add_destinations es ids = ids \<union> (\<lambda>(node, weight). jsString node) ` set es"
  by (induction es ids rule: add_destinations.induct) auto

lemma routableNodeIds_eq: "routableNodeIds g ids = ids \<union> endpoint_ids g"
proof (induction g ids rule: routableNodeIds.induct)
  case (1 ids)
  show ?case by (simp add: endpoint_ids_def)
next
  case (2 startNode edges rest ids)
  have "endpoint_ids ((startNode, edges) # rest)
        = insert startNode ((\<lambda>(node, weight). jsString node) ` set edges \<union> endpoint_ids rest)"
    by (auto simp: endpoint_ids_def)
  with 2 show ?case
    by (auto simp: add_destinations_eq)
qed

text \<open>
  C7. \<open>loadGraphData\<close> keeps exactly the nodes whose \<open>String(id)\<close> is in S, in their
  order; a node outside S is not a candidate, and whatever \<open>findNearestNode\<close> returns on
  the kept nodes is \<open>null\<close> or an id in S.
\<close>

theorem loadGraphData_routable:
  "loadGraphData allNodes g = filter (\<lambda>n. jsString (node_id n) \<in> endpoint_ids g) allNodes
   \<and> (\<forall>n \<in> set allNodes. jsString (node_id n) \<notin> endpoint_ids g
          \<longrightarrow> n \<notin> set (loadGraphData allNodes g))
   \<and> (findNearestNode la lo (loadGraphData allNodes g) ex = JNull
        \<or> jsString (findNearestNode la lo (loadGraphData allNodes g) ex) \<in> endpoint_ids g)"
proof -
  have l: "loadGraphData allNodes g = filter (\<lambda>n. jsString (node_id n) \<in> endpoint_ids g) allNodes"
    by (simp add: loadGraphData_def routableNodeIds_eq)
  from findNearestNode_result [of la lo "loadGraphData allNodes g" ex]
  have "findNearestNode la lo (loadGraphData allNodes g) ex = JNull
        \<or> jsString (findNearestNode la lo (loadGraphData allNodes g) ex) \<in> endpoint_ids g"
    unfolding l by auto
  with l show ?thesis by simp
qed

definition isolated_node :: graph_node where
  "isolated_node = \<lparr>lat = 0, lng = 0, node_id = JStr ''x''\<rparr>"

definition road_node :: graph_node where
  "road_node = \<lparr>lat = 5, lng = 5, node_id = JNum 7\<rparr>"

theorem loadGraphData_routable_witness:
  "loadGraphData [isolated_node, road_node] [(''a'', [(JStr ''7'', 1)])] = [road_node]
   \<and> isolated_node \<notin> set (loadGraphData [isolated_node, road_node] [(''a'', [(JStr ''7'', 1)])])
   \<and> findNearestNode 0 0 (loadGraphData [isolated_node, road_node] [(''a'', [(JStr ''7'', 1)])]) JNull
       = JNum 7"
proof -
  have e: "endpoint_ids [(''a'', [(JStr ''7'', 1)])] = {''a'', ''7''}"
    by (auto simp: endpoint_ids_def)
  have s: "show_int 7 = ''7''"
    by (simp add: show_int_def)
  have l: "loadGraphData [isolated_node, road_node] [(''a'', [(JStr ''7'', 1)])] = [road_node]"
    using loadGraphData_routable [of "[isolated_node, road_node]" "[(''a'', [(JStr ''7'', 1)])]" 0 0 JNull]
    by (simp add: e s isolated_node_def road_node_def)
  show ?thesis
    unfolding l
    by (simp add: findNearestNode_def road_node_def isolated_node_def excluded_def)
qed


section \<open>Equal endpoints\<close>

definition diamond :: graph where
  "diamond =
     [(''s'', [(JStr ''m'', 5), (JStr ''u'', 3)]),
      (''m'', [(JStr ''t'', 5)]),
      (''u'', [(JStr ''v'', 3)]),
      (''v'', [(JStr ''t'', 3)])]"

text \<open>
  C4. With \<open>start === end\<close> both searches return the one-node path and distance 0 at once:
  no entry is popped from a frontier (and so no neighbour is relaxed), whatever the graph.
\<close>

theorem same_endpoints_no_search:
  "bidirectionalDijkstra_run g x x = Returns (\<lparr>path = [x], distance = Own (Fin 0)\<rparr>, 0)
   \<and> bidirectionalDijkstra g x x = Returns \<lparr>path = [x], distance = Own (Fin 0)\<rparr>
   \<and> dijkstra_run g x x = Returns (\<lparr>path = [x], distance = Own (Fin 0)\<rparr>, 0)
   \<and> dijkstra g x x = Returns \<lparr>path = [x], distance = Own (Fin 0)\<rparr>"
  by (simp add: bidirectionalDijkstra_def bidirectionalDijkstra_run_def dijkstra_def dijkstra_run_def)

theorem same_endpoints_no_search_witness:
  "bidirectionalDijkstra_run diamond (JStr ''s'') (JStr ''s'')
     = Returns (\<lparr>path = [JStr ''s''], distance = Own (Fin 0)\<rparr>, 0)
   \<and> dijkstra_run diamond (JStr ''s'') (JStr ''s'')
     = Returns (\<lparr>path = [JStr ''s''], distance = Own (Fin 0)\<rparr>, 0)
   \<and> map_outcome snd (bidirectionalDijkstra_run diamond (JStr ''s'') (JStr ''t'')) = Returns 6"
proof -
  have "map_outcome snd (bidirectionalDijkstra_run diamond (JStr ''s'') (JStr ''t'')) = Returns 6"
    by code_simp
  with same_endpoints_no_search [of diamond "JStr ''s''"] show ?thesis
    by simp
qed

section \<open>Bidirectional search against the reference search\<close>

text \<open>
  C1. On the graph \<open>diamond\<close> the path s, u, v, t weighs 9 and the reference \<open>dijkstra\<close>
  finds it, but \<open>bidirectionalDijkstra\<close> returns s, m, t with distance 10: the two
  frontiers first share the settled node m, and the loop stops there. With the single edge
  s to t of weight 0 the forward side drains before the backward side has settled t, and
  the search reports no route.
\<close>

theorem bidirectional_not_shortest:
  "bidirectionalDijkstra diamond (JStr ''s'') (JStr ''t'')
     = Returns \<lparr>path = [JStr ''s'', JStr ''m'', JStr ''t''], distance = Own (Fin 10)\<rparr>
   \<and> dijkstra diamond (JStr ''s'') (JStr ''t'')
     = Returns \<lparr>path = [JStr ''s'', JStr ''u'', JStr ''v'', JStr ''t''], distance = Own (Fin 9)\<rparr>
   \<and> bidirectionalDijkstra [(''s'', [(JStr ''t'', 0)])] (JStr ''s'') (JStr ''t'')
     = Returns \<lparr>path = [], distance = Own Infinity\<rparr>
   \<and> dijkstra [(''s'', [(JStr ''t'', 0)])] (JStr ''s'') (JStr ''t'')
     = Returns \<lparr>path = [JStr ''s'', JStr ''t''], distance = Own (Fin 0)\<rparr>"
  by code_simp

section \<open>Indoor classification\<close>

definition bare_location :: location where
  "bare_location = \<lparr>lat = 0, lng = 0, accuracy = None, altitude = None, speed = None\<rparr>"

text \<open>
  C8. A location with no accuracy, altitude or speed scores 5 over 3 checks: the GPS
  confidence is 500/3, above 100, and with no device information it is also the overall
  confidence. Nine strong WiFi networks give 150.
\<close>

theorem indoor_confidence_exceeds_100:
  "confidence (detectIndoorFromGPS bare_location) = 500 / 3
   \<and> map_outcome confidence (comprehensiveIndoorDetection bare_location None) = Returns (500 / 3)
   \<and> map_outcome confidence
        (analyzeWiFiNetworks (Some \<lparr>networks = Networks (replicate 9 (Network (Some (- 40))))\<rparr>))
      = Returns 150
   \<and> (100 :: real) < 500 / 3"
  by (simp add: detectIndoorFromGPS_def comprehensiveIndoorDetection_def analyzeWiFiNetworks_def
        analyzeCellularNetwork_def absent_def score_confidence_def bare_location_def Let_def
        combine_def numeral_eq_Suc)


section \<open>The handlers on a two-node road\<close>

definition node_a :: graph_node where
  "node_a = \<lparr>lat = 0, lng = 0, node_id = JStr ''a''\<rparr>"

definition node_b :: graph_node where
  "node_b = \<lparr>lat = 0, lng = 1, node_id = JStr ''b''\<rparr>"

definition road :: graph where
  "road = [(''a'', [(JStr ''b'', 1)])]"

definition at_origin :: "device_info option \<Rightarrow> request" where
  "at_origin d = \<lparr>req_start = bare_location, req_end = bare_location, deviceInfo = d\<rparr>"

definition strong_wifi :: device_info where
  "strong_wifi =
     \<lparr>wifi = Some \<lparr>networks = Networks (replicate 9 (Network (Some (- 40))))\<rparr>, cellular = None\<rparr>"

lemma not_less_haversine [simp]: "\<not> haversine a b c d < 0"
  using haversine_nonneg [of a b c d] by simp

lemma snap_road: "snap [node_a, node_b] (at_origin d) = (JStr ''a'', JStr ''b'')"
  by (simp add: snap_def findNearestNode_def excluded_def node_a_def node_b_def at_origin_def
        bare_location_def Let_def)

lemma plain_road: "findNearestNode_plain 0 0 [node_a, node_b] = JStr ''a''"
  by (simp add: findNearestNode_plain_def node_a_def node_b_def Let_def)

lemma search_road:
  "bidirectionalDijkstra road (JStr ''a'') (JStr ''b'')
   = Returns \<lparr>path = [JStr ''a'', JStr ''b''], distance = Own (Fin 1)\<rparr>"
  "dijkstra road (JStr ''a'') (JStr ''b'')
   = Returns \<lparr>path = [JStr ''a'', JStr ''b''], distance = Own (Fin 1)\<rparr>"
  by code_simp+

lemma coords_road:
  "coords [node_a, node_b] [JStr ''a'', JStr ''b''] = [\<lparr>lat = 0, lng = 0\<rparr>, \<lparr>lat = 0, lng = 1\<rparr>]"
  by (simp add: coords_def List.map_filter_def node_a_def node_b_def)

section \<open>An empty routable node set\<close>

text \<open>
  C5. On an empty node list \<open>findNearestNode\<close> returns \<open>null\<close>. The two variants with the
  retry compare \<open>String(null)\<close> with \<open>String(null)\<close> before they test for a missing snap, and
  answer "too close"; the variant of index.js, which has no such comparison, answers "No
  nearby node found".
\<close>

theorem empty_node_set_too_close:
  "findNearestNode la lo [] ex = JNull
   \<and> loadGraphData allNodes [] = []
   \<and> calculate_route (Some []) (Some g) req = Returns (Failure TooClose)
   \<and> calculate_route_retry (Some []) (Some g) req = Returns (Failure TooClose)
   \<and> calculate_route_index (Some []) (Some g) req = Returns (Failure NoNearbyNode)"
  by (simp add: findNearestNode_def findNearestNode_plain_def loadGraphData_def snap_def
        calculate_route_def calculate_route_retry_def calculate_route_index_def)

theorem empty_node_set_too_close_witness:
  "calculate_route (Some (loadGraphData [node_a, node_b] [])) (Some []) (at_origin None)
     = Returns (Failure TooClose)
   \<and> calculate_route_index (Some []) (Some []) (at_origin None) = Returns (Failure NoNearbyNode)"
  using empty_node_set_too_close [of 0 0 JNull "[node_a, node_b]" "[]" "at_origin None"]
  by simp

section \<open>The response to a search result\<close>

definition routing_outcome :: "response \<Rightarrow> bool \<times> point list \<times> failure option" where
  "routing_outcome r =
     (case r of Failure f \<Rightarrow> (False, [], Some f) | Success route info \<Rightarrow> (True, route, None))"

text \<open>
  C6 as stated fails in the variant of index.js: a request whose two points snap to the
  same node reaches \<open>dijkstra\<close>, which returns the one-node path, and the handler answers
  "No route found" (\<open>result.path.length <= 1\<close>).
\<close>

theorem single_node_path_rejected:
  "dijkstra road (JStr ''a'') (JStr ''a'') = Returns \<lparr>path = [JStr ''a''], distance = Own (Fin 0)\<rparr>
   \<and> calculate_route_index (Some [node_a]) (Some road) (at_origin None) = Returns (Failure NoRoute)"
  by (simp add: calculate_route_index_def findNearestNode_plain_def node_a_def at_origin_def
        bare_location_def Let_def dijkstra_def dijkstra_run_def respond_index_def)

text \<open>
  C6, amended. Once both snaps are accepted the response is a function of the search
  result alone. An empty path is the "No route found" failure in every variant. A non-empty
  path is a success in the first variant and in the two variants with the retry; index.js
  requires two nodes, and answers a one-node path with the failure.
\<close>

theorem calculate_route_boundary:
  assumes "s0 = findNearestNode_plain (lat (req_start req)) (lng (req_start req)) nodes"
    and "e0 = findNearestNode_plain (lat (req_end req)) (lng (req_end req)) nodes"
    and "(s, e) = snap nodes req"
  shows "(truthy s0 \<and> truthy e0 \<longrightarrow>
            calculate_route_plain (Some nodes) (Some edges) req
              = map_outcome (\<lambda>r. if path r = [] then Failure NoRoute
                                 else Success (coords_strict nodes (path r)) None)
                  (dijkstra_plain edges s0 e0)
          \<and> calculate_route_index (Some nodes) (Some edges) req
              = map_outcome (\<lambda>r. if length (path r) \<le> 1 then Failure NoRoute
                                 else Success (coords_strict nodes (path r)) None)
                  (dijkstra edges s0 e0))
       \<and> (jsString s \<noteq> jsString e \<and> truthy s \<and> truthy e \<longrightarrow>
            calculate_route_retry (Some nodes) (Some edges) req
              = map_outcome (\<lambda>r. if path r = [] then Failure NoRoute
                                 else Success (coords nodes (path r)) None)
                  (dijkstra edges (JStr (jsString s)) (JStr (jsString e)))
          \<and> calculate_route (Some nodes) (Some edges) req
              = and_then (indoorInfo req)
                  (\<lambda>info. map_outcome (\<lambda>r. if path r = [] then Failure NoRoute
                                           else Success (coords nodes (path r)) (Some info))
                     (bidirectionalDijkstra edges (JStr (jsString s)) (JStr (jsString e)))))"
proof -
  have r: "respond_plain nodes = (\<lambda>r. if path r = [] then Failure NoRoute
                                else Success (coords_strict nodes (path r)) None)"
    "respond_index nodes = (\<lambda>r. if length (path r) \<le> 1 then Failure NoRoute
                                else Success (coords_strict nodes (path r)) None)"
    "respond_retry nodes = (\<lambda>r. if path r = [] then Failure NoRoute
                                else Success (coords nodes (path r)) None)"
    "\<And>info. respond nodes info = (\<lambda>r. if path r = [] then Failure NoRoute
                                else Success (coords nodes (path r)) (Some info))"
    by (auto simp: respond_plain_def respond_index_def respond_retry_def respond_def fun_eq_iff)
  have sn: "snap nodes req = (s, e)"
    using assms(3) by simp
  have 1: "calculate_route_plain (Some nodes) (Some edges) req
             = map_outcome (respond_plain nodes) (dijkstra_plain edges s0 e0)"
    if "truthy s0" "truthy e0"
    using that by (simp add: calculate_route_plain_def assms(1,2) [symmetric] Let_def)
  have 2: "calculate_route_index (Some nodes) (Some edges) req
             = map_outcome (respond_index nodes) (dijkstra edges s0 e0)"
    if "truthy s0" "truthy e0"
    using that by (simp add: calculate_route_index_def assms(1,2) [symmetric] Let_def)
  have 3: "calculate_route_retry (Some nodes) (Some edges) req
             = map_outcome (respond_retry nodes) (dijkstra edges (JStr (jsString s)) (JStr (jsString e)))"
    if "jsString s \<noteq> jsString e" "truthy s" "truthy e"
    using that by (simp add: calculate_route_retry_def sn)
  have 4: "calculate_route (Some nodes) (Some edges) req
             = and_then (indoorInfo req)
                 (\<lambda>info. map_outcome (respond nodes info)
                    (bidirectionalDijkstra edges (JStr (jsString s)) (JStr (jsString e))))"
    if "jsString s \<noteq> jsString e" "truthy s" "truthy e"
    using that by (simp add: calculate_route_def sn Let_def)
  show ?thesis
    using 1 2 3 4 unfolding r by blast
qed

lemma indoorInfo_plain:
  "\<exists>info. indoorInfo (at_origin None) = Returns info
          \<and> indoorInfo (at_origin (Some strong_wifi)) \<noteq> Throws"
  by (simp add: indoorInfo_def comprehensiveIndoorDetection_def analyzeWiFiNetworks_def
        at_origin_def strong_wifi_def Let_def numeral_eq_Suc)

theorem calculate_route_boundary_witness:
  "map_outcome routing_outcome
       (calculate_route (Some [node_a, node_b]) (Some road) (at_origin None))
     = Returns (True, [\<lparr>lat = 0, lng = 0\<rparr>, \<lparr>lat = 0, lng = 1\<rparr>], None)
   \<and> calculate_route_retry (Some [node_a, node_b]) (Some road) (at_origin None)
     = Returns (Success [\<lparr>lat = 0, lng = 0\<rparr>, \<lparr>lat = 0, lng = 1\<rparr>] None)
   \<and> calculate_route_index (Some [node_a, node_b]) (Some road) (at_origin None)
     = Returns (Failure NoRoute)"
proof -
  have l: "lat (req_start (at_origin None)) = 0" "lng (req_start (at_origin None)) = 0"
    "lat (req_end (at_origin None)) = 0" "lng (req_end (at_origin None)) = 0"
    by (simp_all add: at_origin_def bare_location_def)
  have d: "dijkstra road (JStr ''a'') (JStr ''a'') = Returns \<lparr>path = [JStr ''a''], distance = Own (Fin 0)\<rparr>"
    by (simp add: dijkstra_def dijkstra_run_def)
  have p1: "JStr ''a'' = findNearestNode_plain (lat (req_start (at_origin None)))
              (lng (req_start (at_origin None))) [node_a, node_b]"
    and p2: "JStr ''a'' = findNearestNode_plain (lat (req_end (at_origin None)))
              (lng (req_end (at_origin None))) [node_a, node_b]"
    and p3: "(JStr ''a'', JStr ''b'') = snap [node_a, node_b] (at_origin None)"
    by (simp_all add: l plain_road snap_road)
  from indoorInfo_plain obtain info where i: "indoorInfo (at_origin None) = Returns info"
    by blast
  show ?thesis
    using calculate_route_boundary [OF p1 p2 p3, of road]
    by (simp add: search_road coords_road d routing_outcome_def i)
qed

section \<open>Device information and the routing outcome\<close>

definition null_network :: device_info where
  "null_network = \<lparr>wifi = Some \<lparr>networks = Networks [NoNetwork]\<rparr>, cellular = None\<rparr>"

definition no_array :: device_info where
  "no_array = \<lparr>wifi = Some \<lparr>networks = NotAnArray\<rparr>, cellular = None\<rparr>"

text \<open>
  The device information never reaches the snapping, and where the classification
  returns, the rest of the handler does not depend on what it returned: the success flag,
  the route and the failure reason are then those of a request without device
  information.
\<close>

lemma indoorInfo_returns_same_route:
  assumes "indoorInfo \<lparr>req_start = s, req_end = e, deviceInfo = d1\<rparr> = Returns i1"
    and "indoorInfo \<lparr>req_start = s, req_end = e, deviceInfo = d2\<rparr> = Returns i2"
  shows "map_outcome routing_outcome
           (calculate_route graphNodes graphEdges \<lparr>req_start = s, req_end = e, deviceInfo = d1\<rparr>)
         = map_outcome routing_outcome
           (calculate_route graphNodes graphEdges \<lparr>req_start = s, req_end = e, deviceInfo = d2\<rparr>)"
proof -
  have sn: "\<And>nodes. snap nodes \<lparr>req_start = s, req_end = e, deviceInfo = d1\<rparr>
     = snap nodes \<lparr>req_start = s, req_end = e, deviceInfo = d2\<rparr>"
    by (simp add: snap_def Let_def)
  show ?thesis
  proof (cases graphNodes)
    case None
    then show ?thesis by (simp add: calculate_route_def)
  next
    case (Some ns)
    show ?thesis
    proof (cases graphEdges)
      case None
      with Some show ?thesis by (simp add: calculate_route_def)
    next
      case (Some es)
      obtain a b where ab: "snap ns \<lparr>req_start = s, req_end = e, deviceInfo = d2\<rparr> = (a, b)"
        by (cases "snap ns \<lparr>req_start = s, req_end = e, deviceInfo = d2\<rparr>")
      show ?thesis
        using \<open>graphNodes = Some ns\<close> Some sn [of ns] ab assms
        by (cases "bidirectionalDijkstra es (JStr (jsString a)) (JStr (jsString b))")
           (simp_all add: calculate_route_def Let_def respond_def routing_outcome_def)
    qed
  qed
qed

text \<open>
  C9 fails on the code. The request at the two-node road succeeds without device
  information. With \<open>deviceInfo = {wifi: {networks: [null]}}\<close>, or with a \<open>networks\<close> that
  is not an array, the same request throws in \<open>analyzeWiFiNetworks\<close>, which the handler
  calls before the search: no response is sent, while the snapped nodes are unchanged.
\<close>

theorem device_info_gates_routing:
  "calculate_route (Some [node_a, node_b]) (Some road) (at_origin None)
     = map_outcome (\<lambda>info. Success [\<lparr>lat = 0, lng = 0\<rparr>, \<lparr>lat = 0, lng = 1\<rparr>] (Some info))
         (indoorInfo (at_origin None))
   \<and> (\<exists>info. indoorInfo (at_origin None) = Returns info)
   \<and> calculate_route (Some [node_a, node_b]) (Some road) (at_origin (Some null_network)) = Throws
   \<and> calculate_route (Some [node_a, node_b]) (Some road) (at_origin (Some no_array)) = Throws
   \<and> snap [node_a, node_b] (at_origin (Some null_network)) = snap [node_a, node_b] (at_origin None)"
proof -
  have t: "indoorInfo (at_origin (Some null_network)) = Throws"
    "indoorInfo (at_origin (Some no_array)) = Throws"
    by (simp_all add: indoorInfo_def comprehensiveIndoorDetection_def analyzeWiFiNetworks_def
          at_origin_def null_network_def no_array_def Let_def)
  from indoorInfo_plain obtain info where i: "indoorInfo (at_origin None) = Returns info"
    by blast
  show ?thesis
    by (simp add: calculate_route_def snap_road search_road coords_road respond_def Let_def t i)
qed

theorem device_info_gates_routing_witness:
  "(\<exists>info. calculate_route (Some [node_a, node_b]) (Some road) (at_origin None)
             = Returns (Success [\<lparr>lat = 0, lng = 0\<rparr>, \<lparr>lat = 0, lng = 1\<rparr>] (Some info)))
   \<and> calculate_route (Some [node_a, node_b]) (Some road) (at_origin (Some null_network))
       \<noteq> calculate_route (Some [node_a, node_b]) (Some road) (at_origin None)"
  using device_info_gates_routing by auto

section \<open>The stopping rule\<close>

text \<open>
  The least tentative distance among the entries of a frontier, \<open>Infinity\<close> for an empty
  one; \<open>minDist\<close> is what the loop reads instead, the first entry of the unsorted array.
\<close>

definition true_min :: "entry list \<Rightarrow> jsnum" where
  "true_min q = foldr (\<lambda>e m. min (snd e) m) q Infinity"

text \<open>
  C2 fails on the code. The stop check reads \<open>queueForward[0].dist\<close> and
  \<open>queueBackward[0].dist\<close> before the queues are sorted (the sort comes just before the
  shift, inside the branches). On \<open>diamond\<close> from s to t the first iteration relaxes the
  edges of s; at the second evaluation of the check the forward queue is m at 5, u at 3:
  the check compares the best candidate with 5 + 0, while the least tentative distances
  sum to 3 + 0.
\<close>

theorem stop_check_reads_stale_head:
  "(case bd_init diamond (JStr ''s'') (JStr ''t'') of
      None \<Rightarrow> False
    | Some st0 \<Rightarrow>
        queue (forward st0) = [(JStr ''s'', Fin 0)] \<and> queue (backward st0) = [(JStr ''t'', Fin 0)]
        \<and> \<not> stop_check st0
        \<and> (case loop_body diamond st0 of
             Returns st1 \<Rightarrow>
               queue (forward st1) = [(JStr ''m'', Fin 5), (JStr ''u'', Fin 3)]
               \<and> queue (backward st1) = [(JStr ''t'', Fin 0)]
               \<and> minDist (queue (forward st1)) + minDist (queue (backward st1)) = Fin 5
               \<and> true_min (queue (forward st1)) + true_min (queue (backward st1)) = Fin 3
           | _ \<Rightarrow> False))"
  by code_simp

section \<open>Invariants of one search side\<close>

text \<open>
  The graph has an edge of weight \<open>w\<close> from the key \<open>u\<close> to a destination whose \<open>String\<close> is
  \<open>v\<close>. A graph is \<open>canonical\<close> when every destination is a string, as the keys are, and
  no weight is negative.
\<close>

definition has_edge :: "graph \<Rightarrow> string \<Rightarrow> string \<Rightarrow> real \<Rightarrow> bool" where
  "has_edge g u v w = (\<exists>es n. (u, es) \<in> set g \<and> (n, w) \<in> set es \<and> jsString n = v)"


text \<open>
  The values that stand in the queue and in the visited set of a side for the key \<open>k\<close>:
  the source as it was passed, and the string \<open>k\<close> for every other key (the keys of the
  graph and, on a graph in canonical form, the destinations of its edges).
\<close>

definition nd :: "jsid \<Rightarrow> string \<Rightarrow> jsid" where
  "nd src k = (if k = jsString src then src else JStr k)"

lemma jsString_nd [simp]: "jsString (nd src k) = k"
  by (simp add: nd_def)

lemma nd_eq_iff [simp]: "nd src k = nd src k' \<longleftrightarrow> k = k'"
  by (metis jsString_nd)

lemma nd_src [simp]: "nd src (jsString src) = src"
  by (simp add: nd_def)


lemma nd_image [simp]: "nd src k \<in> nd src ` A \<longleftrightarrow> k \<in> A"
  by auto












definition improve :: "jsid \<Rightarrow> string \<Rightarrow> string \<Rightarrow> real \<Rightarrow> side \<Rightarrow> side" where
  "improve src c k a s =
     s\<lparr>distances := (distances s)(k \<mapsto> Fin a), prev := (prev s)(k \<mapsto> nd src c),
       queue := queue s @ [(nd src k, Fin a)]\<rparr>"



lemma improve_simps [simp]:
  "distances (improve src c k a s) = (distances s)(k \<mapsto> Fin a)"
  "prev (improve src c k a s) = (prev s)(k \<mapsto> nd src c)"
  "queue (improve src c k a s) = queue s @ [(nd src k, Fin a)]"
  "visited (improve src c k a s) = visited s"
  by (simp_all add: improve_def)


















lemma settle_simps [simp]:
  "distances (settle c s) = distances s" "prev (settle c s) = prev s"
  "queue (settle c s) = queue s" "visited (settle c s) = visited s @ [c]"
  by (simp_all add: settle_def)



section \<open>Invariants of the bidirectional search\<close>














subsection \<open>The initial state\<close>















section \<open>The reconstructed path\<close>

lemma prev_at_own [simp]: "p (jsString u) = Some v \<Longrightarrow> prev_at p u = v"
  by (simp add: prev_at_def js_get_def)




text \<open>
  A route of the graph: a non-empty list of ids whose consecutive pairs are edges, with the
  sum of the weights of those edges.
\<close>

inductive route :: "graph \<Rightarrow> string list \<Rightarrow> real \<Rightarrow> bool" for g where
  route_one: "route g [k] 0"
| route_snoc: "route g L x \<Longrightarrow> has_edge g (last L) k w \<Longrightarrow> route g (L @ [k]) (x + w)"

definition path_of_edges :: "graph \<Rightarrow> string list \<Rightarrow> real list \<Rightarrow> bool" where
  "path_of_edges g L ws =
     (length L = Suc (length ws)
      \<and> (\<forall>i < length ws. has_edge g (L ! i) (L ! Suc i) (ws ! i)))"













subsection \<open>A start node that the graph does not hold\<close>






subsection \<open>The path of a returned result\<close>




lemma path_of_edges_one [simp]: "path_of_edges g [k] ws \<longleftrightarrow> ws = []"
  by (auto simp: path_of_edges_def)







end
